theory Spec2Isabelle
  imports Main
begin

section \<open>Python values: keys, errors, tensors, nested dictionaries\<close>

text \<open>
  The reserved dictionary keys are imported constants (\<open>SampleBatch.OBS\<close>,
  \<open>SampleBatch.SEQ_LENS\<close>, \<open>STATE_IN\<close>, \<open>STATE_OUT\<close>, \<open>ENCODER_OUT\<close>); their string
  values are not part of \<open>encoder.py\<close>, so each is a constructor of its own, distinct
  from the others and from every literal string key (\<open>Str\<close>). \<open>Idx\<close> is an integer
  subscript. \<open>ACTOR\<close> and \<open>CRITIC\<close> are the two top-level keys of the composite encoder.
\<close>

datatype key = OBS | SEQ_LENS | STATE_IN | STATE_OUT | ENCODER_OUT | ACTOR | CRITIC
  | Str string | Idx nat

datatype violation = MissingKey | NotATensor | NotAMapping
  | RankMismatch nat nat | DimMismatch string int nat

text \<open>
  Every exception is a value. \<open>TfError\<close> stands for any exception raised by the tensor
  library (TensorFlow / Keras), \<open>TypeError\<close> for subscripting a value that has no such
  subscript.
\<close>

datatype error = KeyError key | IndexError | AttributeError string | TypeError | TfError
  | InputSpecViolation "key list" violation | OutputSpecViolation "key list" violation

definition ebind :: "error + 'a \<Rightarrow> ('a \<Rightarrow> error + 'b) \<Rightarrow> error + 'b" where
  "ebind m f = (case m of Inl e \<Rightarrow> Inl e | Inr x \<Rightarrow> f x)"

text \<open>
  A tensor is its shape and its elements in row-major order. The element type is left
  open: no floating-point arithmetic is modelled.
\<close>

datatype 'a tensor = Tensor (shape: "nat list") (elems: "'a list")

fun offset :: "nat list \<Rightarrow> nat list \<Rightarrow> nat" where
  "offset (d # ds) (i # is) = i * prod_list ds + offset ds is"
| "offset _ _ = 0"

fun valid_idx :: "nat list \<Rightarrow> nat list \<Rightarrow> bool" where
  "valid_idx [] [] = True"
| "valid_idx (d # ds) (i # is) = (i < d \<and> valid_idx ds is)"
| "valid_idx _ _ = False"

text \<open>All indices of a shape, in row-major order.\<close>

fun indices :: "nat list \<Rightarrow> nat list list" where
  "indices [] = [[]]"
| "indices (d # ds) = concat (map (\<lambda>i. map ((#) i) (indices ds)) [0..<d])"

definition at :: "'a tensor \<Rightarrow> nat list \<Rightarrow> 'a" where
  "at t idx = elems t ! offset (shape t) idx"

text \<open>
  The runtime data: a tensor, Python's \<open>None\<close>, or a (nested) dictionary. A dictionary
  is an association list; lookup takes the first entry of a key.
\<close>

datatype 'a nested = Leaf "'a tensor" | NoneV | Dict "(key \<times> 'a nested) list"

text \<open>\<open>x[k]\<close>: a dictionary lookup, or the slice \<open>t[i]\<close> of a tensor along its first axis.\<close>

fun getitem :: "'a nested \<Rightarrow> key \<Rightarrow> error + 'a nested" where
  "getitem (Dict kvs) k = (case map_of kvs k of None \<Rightarrow> Inl (KeyError k) | Some v \<Rightarrow> Inr v)"
| "getitem (Leaf t) (Idx i) =
     (case shape t of
        [] \<Rightarrow> Inl TfError
      | d # ds \<Rightarrow>
          if i < d then Inr (Leaf (Tensor ds (map (\<lambda>idx. at t (i # idx)) (indices ds))))
          else Inl TfError)"
| "getitem (Leaf t) k = Inl TypeError"
| "getitem NoneV k = Inl TypeError"

section \<open>The tensor library operations the encoders call\<close>

text \<open>
  \<open>tf.cast(x, dtype)\<close>: elementwise; \<open>dtype\<close> is the conversion of one element. A value
  that is not a tensor is rejected.
\<close>

definition tf_cast :: "'a nested \<Rightarrow> ('a \<Rightarrow> 'a) \<Rightarrow> error + 'a tensor" where
  "tf_cast x dtype =
     (case x of Leaf t \<Rightarrow> Inr (Tensor (shape t) (map dtype (elems t))) | _ \<Rightarrow> Inl TfError)"

text \<open>Position of axis \<open>j\<close> in a permutation.\<close>

fun pos :: "nat \<Rightarrow> nat list \<Rightarrow> nat" where
  "pos j [] = 0"
| "pos j (p # ps) = (if p = j then 0 else Suc (pos j ps))"

text \<open>
  \<open>tf.transpose(x, perm)\<close>: axis \<open>k\<close> of the result is axis \<open>perm[k]\<close> of \<open>x\<close>, so the
  element at \<open>idx\<close> of the result is the element of \<open>x\<close> whose index has \<open>idx[k]\<close> at
  position \<open>perm[k]\<close>. \<open>perm\<close> must be a permutation of the axes of \<open>x\<close>.
\<close>

definition tf_transpose :: "'a nested \<Rightarrow> nat list \<Rightarrow> error + 'a tensor" where
  "tf_transpose x perm =
     (case x of
        Leaf t \<Rightarrow>
          if length perm = length (shape t) \<and> distinct perm
             \<and> list_all (\<lambda>p. p < length perm) perm
          then let s = map (\<lambda>p. shape t ! p) perm in
            Inr (Tensor s
              (map (\<lambda>idx. at t (map (\<lambda>j. idx ! pos j perm) [0..<length perm])) (indices s)))
          else Inl TfError
      | _ \<Rightarrow> Inl TfError)"

text \<open>
  \<open>tf.stack(values, axis)\<close>: all values have one shape; the result has a new axis of
  length \<open>len(values)\<close> at position \<open>axis\<close>, and its element at \<open>idx\<close> is the element of
  \<open>values[idx[axis]]\<close> at \<open>idx\<close> without that position. An empty list is rejected.
\<close>

definition tf_stack :: "'a tensor list \<Rightarrow> nat \<Rightarrow> error + 'a tensor" where
  "tf_stack values axis =
     (case values of
        [] \<Rightarrow> Inl TfError
      | v # vs \<Rightarrow>
          if list_all (\<lambda>u. shape u = shape v) vs \<and> axis \<le> length (shape v)
          then let s = take axis (shape v) @ [length values] @ drop axis (shape v) in
            Inr (Tensor s
              (map (\<lambda>idx. at (values ! (idx ! axis)) (take axis idx @ drop (Suc axis) idx))
                 (indices s)))
          else Inl TfError)"

text \<open>\<open>tf.zeros(shape)\<close>: a negative dimension is rejected.\<close>

definition tf_zeros :: "int list \<Rightarrow> error + ('a::zero) tensor" where
  "tf_zeros dims =
     (if list_all (\<lambda>d. 0 \<le> d) dims
      then Inr (Tensor (map nat dims) (replicate (prod_list (map nat dims)) 0))
      else Inl TfError)"

text \<open>
  \<open>tree.map_structure(f, structure)\<close>: applies \<open>f\<close> to every leaf (a tensor or \<open>None\<close>) and
  rebuilds the same dictionary structure.
\<close>

fun map_structure :: "('a nested \<Rightarrow> error + 'a tensor) \<Rightarrow> 'a nested \<Rightarrow> error + 'a nested"
  and map_structure_items ::
    "('a nested \<Rightarrow> error + 'a tensor) \<Rightarrow> (key \<times> 'a nested) list \<Rightarrow> error + (key \<times> 'a nested) list"
  where
  "map_structure f (Leaf t) = ebind (f (Leaf t)) (\<lambda>t'. Inr (Leaf t'))"
| "map_structure f NoneV = ebind (f NoneV) (\<lambda>t'. Inr (Leaf t'))"
| "map_structure f (Dict kvs) = ebind (map_structure_items f kvs) (\<lambda>kvs'. Inr (Dict kvs'))"
| "map_structure_items f [] = Inr []"
| "map_structure_items f ((k, v) # kvs) =
     ebind (map_structure f v) (\<lambda>v'.
     ebind (map_structure_items f kvs) (\<lambda>kvs'. Inr ((k, v') # kvs')))"

text \<open>
  Layers are the callables the layer constructors return. A recurrent layer built with
  \<open>return_sequences=True, return_state=True\<close> takes the input sequence and the pair of
  initial states and returns the output sequence, the final hidden state and the final
  cell state.
\<close>

type_synonym 'a layer = "'a tensor \<Rightarrow> error + 'a tensor"

type_synonym 'a lstm_layer =
  "'a tensor \<Rightarrow> 'a tensor \<times> 'a tensor \<Rightarrow> error + ('a tensor \<times> 'a tensor \<times> 'a tensor)"

type_synonym 'a activation = "'a tensor \<Rightarrow> 'a tensor"

record LSTM_args =
  lstm_units :: int
  time_major :: bool
  lstm_use_bias :: bool
  return_sequences :: bool
  return_state :: bool

record 'a Dense_args =
  units :: int
  activation :: "'a activation option"
  dense_use_bias :: bool

record TfCNN_args =
  cnn_input_dims :: "int list"
  cnn_cnn_filter_specifiers :: "int list list"
  cnn_cnn_activation :: string
  cnn_cnn_use_layernorm :: bool
  cnn_use_bias :: bool

record TfMLP_args =
  mlp_input_dim :: int
  mlp_hidden_layer_dims :: "int list"
  mlp_hidden_layer_activation :: string
  mlp_hidden_layer_use_layernorm :: bool
  mlp_output_dim :: int
  mlp_output_activation :: string
  mlp_use_bias :: bool

text \<open>
  The layer constructors and helpers are external to \<open>encoder.py\<close> and taken as
  parameters. The first argument of a layer constructor is the position of the created
  object among the layers its encoder creates: two layers built from the same arguments
  are still two objects with weights of their own.
\<close>

record 'a tf_module =
  float32 :: "'a \<Rightarrow> 'a"
  keras_LSTM :: "nat \<Rightarrow> LSTM_args \<Rightarrow> 'a lstm_layer"
  keras_Dense :: "nat \<Rightarrow> 'a Dense_args \<Rightarrow> 'a layer"
  keras_Flatten :: "nat \<Rightarrow> 'a layer"
  TfCNN :: "nat \<Rightarrow> TfCNN_args \<Rightarrow> 'a layer"
  TfMLP :: "nat \<Rightarrow> TfMLP_args \<Rightarrow> 'a layer"
  get_activation_fn :: "string \<Rightarrow> string \<Rightarrow> 'a activation option"

text \<open>\<open>tf.keras.Sequential(layers)\<close>: the layers applied in order.\<close>

fun keras_Sequential :: "'a layer list \<Rightarrow> 'a layer" where
  "keras_Sequential [] x = Inr x"
| "keras_Sequential (l # ls) x = ebind (l x) (keras_Sequential ls)"

section \<open>Configurations and specs\<close>

text \<open>
  The configuration classes are imported; the records hold the attributes the encoders
  read. \<open>num_layers\<close> is the attribute \<open>get_initial_state\<close> reads: \<open>None\<close> when the
  configuration object has no attribute of that name, as is the case of the
  configuration the spec describes, which names the number of layers \<open>num_lstm_layers\<close>.
\<close>

record ModelConfig =
  input_dims :: "int list"
  output_dims :: "int list"
  output_activation :: string
  use_bias :: bool

record CNNEncoderConfig = ModelConfig +
  cnn_filter_specifiers :: "int list list"
  cnn_activation :: string
  cnn_use_layernorm :: bool

record MLPEncoderConfig = ModelConfig +
  hidden_layer_dims :: "int list"
  hidden_layer_activation :: string
  hidden_layer_use_layernorm :: bool

record LSTMEncoderConfig = ModelConfig +
  hidden_dim :: int
  num_lstm_layers :: int
  batch_major :: bool
  num_layers :: "int option"

text \<open>\<open>xs[i]\<close> on a Python tuple, for the constant indices the encoders use.\<close>

definition tuple_getitem :: "'b list \<Rightarrow> nat \<Rightarrow> error + 'b" where
  "tuple_getitem xs i = (if i < length xs then Inr (xs ! i) else Inl IndexError)"

text \<open>
  \<open>TfTensorSpec("b, w, h, c", w=..., h=..., c=...)\<close>: the dimension names as written, and
  the sizes bound to some of them. A spec dictionary maps keys to a tensor spec, to a
  nested dictionary of specs, or to \<open>None\<close>.
\<close>

datatype tensor_spec = TfTensorSpec string "(string \<times> int) list"

datatype spec = NoSpec | TensorSpec tensor_spec | SpecDict "(key \<times> spec) list"

section \<open>Encoder objects\<close>

text \<open>
  The base-class initializers (\<open>TfModel.__init__\<close>, \<open>Encoder.__init__\<close>,
  \<open>ActorCriticEncoder.__init__\<close>) are imported. A constructor's calls of them are
  recorded, in order, in \<open>init_calls\<close>; \<open>config\<close> is the \<open>self.config\<close> every method reads.
\<close>

datatype init_call = TfModel_init | Encoder_init | ActorCriticEncoder_init

record 'c Model =
  config :: 'c
  init_calls :: "init_call list"

text \<open>\<open>TfCNNEncoder\<close> and \<open>TfMLPEncoder\<close>: a model with the one attribute \<open>self.net\<close>.\<close>

record ('a, 'c) net_encoder = "'c Model" +
  net :: "'a layer"

type_synonym 'a TfCNNEncoder = "('a, CNNEncoderConfig) net_encoder"

type_synonym 'a TfMLPEncoder = "('a, MLPEncoderConfig) net_encoder"

record 'a TfLSTMEncoder = "LSTMEncoderConfig Model" +
  lstms :: "'a lstm_layer list"
  linear :: "'a layer"

section \<open>TfLSTMEncoder\<close>

text \<open>
  \<open>TfLSTMEncoder.__init__\<close>: calls \<open>TfModel.__init__\<close>, appends one LSTM layer per
  \<open>range(config.num_lstm_layers)\<close>, then creates the final dense layer.
  \<open>config.output_dims[0]\<close> raises on an empty tuple.
\<close>

definition TfLSTMEncoder_init :: "'a tf_module \<Rightarrow> LSTMEncoderConfig \<Rightarrow> error + 'a TfLSTMEncoder" where
  "TfLSTMEncoder_init tf cfg =
     (let lstms' = map (\<lambda>k. keras_LSTM tf k
            \<lparr>lstm_units = hidden_dim cfg, time_major = (\<not> batch_major cfg),
             lstm_use_bias = use_bias cfg, return_sequences = True, return_state = True\<rparr>)
            [0..<nat (num_lstm_layers cfg)]
      in ebind (tuple_getitem (output_dims cfg) 0) (\<lambda>d.
         Inr \<lparr>config = cfg, init_calls = [TfModel_init], lstms = lstms',
              linear = keras_Dense tf (nat (num_lstm_layers cfg))
                \<lparr>units = d, activation = None, dense_use_bias = use_bias cfg\<rparr>\<rparr>))"

definition TfLSTMEncoder_get_input_specs :: "'a TfLSTMEncoder \<Rightarrow> error + spec" where
  "TfLSTMEncoder_get_input_specs self =
     ebind (tuple_getitem (input_dims (config self)) 0) (\<lambda>d.
     Inr (SpecDict
       [(OBS, TensorSpec (TfTensorSpec ''b, t, d'' [(''d'', d)])),
        (STATE_IN, SpecDict
          [(Str ''h'', TensorSpec (TfTensorSpec ''b, l, h''
              [(''h'', hidden_dim (config self)), (''l'', num_lstm_layers (config self))])),
           (Str ''c'', TensorSpec (TfTensorSpec ''b, l, h''
              [(''h'', hidden_dim (config self)), (''l'', num_lstm_layers (config self))]))])]))"

definition TfLSTMEncoder_get_output_specs :: "'a TfLSTMEncoder \<Rightarrow> error + spec" where
  "TfLSTMEncoder_get_output_specs self =
     ebind (tuple_getitem (output_dims (config self)) 0) (\<lambda>d.
     Inr (SpecDict
       [(ENCODER_OUT, TensorSpec (TfTensorSpec ''b, t, d'' [(''d'', d)])),
        (STATE_OUT, SpecDict
          [(Str ''h'', TensorSpec (TfTensorSpec ''b, l, h''
              [(''h'', hidden_dim (config self)), (''l'', num_lstm_layers (config self))])),
           (Str ''c'', TensorSpec (TfTensorSpec ''b, l, h''
              [(''h'', hidden_dim (config self)), (''l'', num_lstm_layers (config self))]))])]))"

definition TfLSTMEncoder_get_initial_state :: "'a TfLSTMEncoder \<Rightarrow> error + ('a::zero) nested" where
  "TfLSTMEncoder_get_initial_state self =
     (case num_layers (config self) of
        None \<Rightarrow> Inl (AttributeError ''num_layers'')
      | Some n \<Rightarrow>
          ebind (tf_zeros [n, hidden_dim (config self)]) (\<lambda>h.
          ebind (tf_zeros [n, hidden_dim (config self)]) (\<lambda>c.
          Inr (Dict [(Str ''h'', Leaf h), (Str ''c'', Leaf c)]))))"

text \<open>A layer called on a value that is not a tensor raises.\<close>

definition tensor_of :: "'a nested \<Rightarrow> error + 'a tensor" where
  "tensor_of x = (case x of Leaf t \<Rightarrow> Inr t | _ \<Rightarrow> Inl TfError)"

text \<open>
  The loop \<open>for i, layer in enumerate(self.lstms)\<close> of \<open>_forward\<close>, with its three
  variables \<open>out\<close>, \<open>states_out_h\<close>, \<open>states_out_c\<close>.
\<close>

fun lstm_loop ::
  "'a lstm_layer list \<Rightarrow> nat \<Rightarrow> 'a nested \<Rightarrow> 'a tensor \<Rightarrow> 'a tensor list \<Rightarrow> 'a tensor list
   \<Rightarrow> error + ('a tensor \<times> 'a tensor list \<times> 'a tensor list)" where
  "lstm_loop [] i states_in out states_out_h states_out_c =
     Inr (out, states_out_h, states_out_c)"
| "lstm_loop (layer # layers) i states_in out states_out_h states_out_c =
     ebind (getitem states_in (Str ''h'')) (\<lambda>sh.
     ebind (getitem sh (Idx i)) (\<lambda>shi.
     ebind (getitem states_in (Str ''c'')) (\<lambda>sc.
     ebind (getitem sc (Idx i)) (\<lambda>sci.
     ebind (tensor_of shi) (\<lambda>hi.
     ebind (tensor_of sci) (\<lambda>ci.
     ebind (layer out (hi, ci)) (\<lambda>(out', h, c).
     lstm_loop layers (Suc i) states_in out' (states_out_h @ [h]) (states_out_c @ [c]))))))))"

definition TfLSTMEncoder__forward ::
  "'a tf_module \<Rightarrow> 'a TfLSTMEncoder \<Rightarrow> 'a nested \<Rightarrow> error + 'a nested" where
  "TfLSTMEncoder__forward tf self inputs =
     ebind (getitem inputs OBS) (\<lambda>obs.
     ebind (tf_cast obs (float32 tf)) (\<lambda>out.
     ebind (getitem inputs STATE_IN) (\<lambda>state_in.
     ebind (map_structure (\<lambda>s. tf_transpose s [1, 0, 2]) state_in) (\<lambda>states_in.
     ebind (lstm_loop (lstms self) 0 states_in out [] []) (\<lambda>(out, states_out_h, states_out_c).
     ebind (linear self out) (\<lambda>out.
     ebind (tf_stack states_out_h 1) (\<lambda>h.
     ebind (tf_stack states_out_c 1) (\<lambda>c.
     Inr (Dict [(ENCODER_OUT, Leaf out),
                (STATE_OUT, Dict [(Str ''h'', Leaf h), (Str ''c'', Leaf c)])])))))))))"

section \<open>TfCNNEncoder\<close>

text \<open>
  \<open>TfCNNEncoder.__init__\<close>: calls \<open>TfModel.__init__\<close> and \<open>Encoder.__init__\<close>, then gathers
  the bare CNN, a flatten layer and a final dense layer of \<open>config.output_dims[0]\<close> units
  into \<open>self.net\<close>.
\<close>

definition TfCNNEncoder_init :: "'a tf_module \<Rightarrow> CNNEncoderConfig \<Rightarrow> error + 'a TfCNNEncoder" where
  "TfCNNEncoder_init tf cfg =
     (let cnn = TfCNN tf 0
            \<lparr>cnn_input_dims = input_dims cfg,
             cnn_cnn_filter_specifiers = cnn_filter_specifiers cfg,
             cnn_cnn_activation = cnn_activation cfg,
             cnn_cnn_use_layernorm = cnn_use_layernorm cfg,
             cnn_use_bias = use_bias cfg\<rparr>;
          layers = [cnn] @ [keras_Flatten tf 1];
          output_activation' = get_activation_fn tf (output_activation cfg) ''tf2''
      in ebind (tuple_getitem (output_dims cfg) 0) (\<lambda>d.
         Inr \<lparr>config = cfg, init_calls = [TfModel_init, Encoder_init],
              net = keras_Sequential (layers @ [keras_Dense tf 2
                \<lparr>units = d, activation = output_activation', dense_use_bias = True\<rparr>])\<rparr>))"

definition TfCNNEncoder_get_input_specs :: "'a TfCNNEncoder \<Rightarrow> error + spec" where
  "TfCNNEncoder_get_input_specs self =
     ebind (tuple_getitem (input_dims (config self)) 0) (\<lambda>w.
     ebind (tuple_getitem (input_dims (config self)) 1) (\<lambda>h.
     ebind (tuple_getitem (input_dims (config self)) 2) (\<lambda>c.
     Inr (SpecDict
       [(OBS, TensorSpec (TfTensorSpec ''b, w, h, c'' [(''w'', w), (''h'', h), (''c'', c)])),
        (STATE_IN, NoSpec),
        (SEQ_LENS, NoSpec)]))))"

definition TfCNNEncoder_get_output_specs :: "'a TfCNNEncoder \<Rightarrow> error + spec" where
  "TfCNNEncoder_get_output_specs self =
     ebind (tuple_getitem (output_dims (config self)) 0) (\<lambda>d.
     Inr (SpecDict
       [(ENCODER_OUT, TensorSpec (TfTensorSpec ''b, d'' [(''d'', d)])),
        (STATE_OUT, NoSpec)]))"

definition TfCNNEncoder__forward :: "'a TfCNNEncoder \<Rightarrow> 'a nested \<Rightarrow> error + 'a nested" where
  "TfCNNEncoder__forward self inputs =
     ebind (getitem inputs OBS) (\<lambda>obs.
     ebind (tensor_of obs) (\<lambda>x.
     ebind (net self x) (\<lambda>y.
     ebind (getitem inputs STATE_IN) (\<lambda>state_in.
     Inr (Dict [(ENCODER_OUT, Leaf y), (STATE_OUT, state_in)])))))"

section \<open>TfMLPEncoder\<close>

definition TfMLPEncoder_init :: "'a tf_module \<Rightarrow> MLPEncoderConfig \<Rightarrow> error + 'a TfMLPEncoder" where
  "TfMLPEncoder_init tf cfg =
     ebind (tuple_getitem (input_dims cfg) 0) (\<lambda>i.
     ebind (tuple_getitem (output_dims cfg) 0) (\<lambda>d.
     Inr \<lparr>config = cfg, init_calls = [TfModel_init, Encoder_init],
          net = TfMLP tf 0
            \<lparr>mlp_input_dim = i,
             mlp_hidden_layer_dims = hidden_layer_dims cfg,
             mlp_hidden_layer_activation = hidden_layer_activation cfg,
             mlp_hidden_layer_use_layernorm = hidden_layer_use_layernorm cfg,
             mlp_output_dim = d,
             mlp_output_activation = output_activation cfg,
             mlp_use_bias = use_bias cfg\<rparr>\<rparr>))"

definition TfMLPEncoder_get_input_specs :: "'a TfMLPEncoder \<Rightarrow> error + spec" where
  "TfMLPEncoder_get_input_specs self =
     ebind (tuple_getitem (input_dims (config self)) 0) (\<lambda>d.
     Inr (SpecDict [(OBS, TensorSpec (TfTensorSpec ''b, d'' [(''d'', d)]))]))"

definition TfMLPEncoder_get_output_specs :: "'a TfMLPEncoder \<Rightarrow> error + spec" where
  "TfMLPEncoder_get_output_specs self =
     ebind (tuple_getitem (output_dims (config self)) 0) (\<lambda>d.
     Inr (SpecDict
       [(ENCODER_OUT, TensorSpec (TfTensorSpec ''b, d'' [(''d'', d)])),
        (STATE_OUT, NoSpec)]))"

definition TfMLPEncoder__forward :: "'a TfMLPEncoder \<Rightarrow> 'a nested \<Rightarrow> error + 'a nested" where
  "TfMLPEncoder__forward self inputs =
     ebind (getitem inputs OBS) (\<lambda>obs.
     ebind (tensor_of obs) (\<lambda>x.
     ebind (net self x) (\<lambda>y.
     Inr (Dict [(ENCODER_OUT, Leaf y), (STATE_OUT, NoneV)]))))"

section \<open>The contract layer\<close>

text \<open>
  Modelled from the spec: the validation engine (\<open>SpecDict\<close>, \<open>TfTensorSpec\<close>), which is
  imported and not part of \<open>encoder.py\<close>. A tensor spec is an ordered list of named
  dimensions, each unconstrained or bound to a size: the rank of the tensor must equal the
  number of names and every bound dimension must match. A spec dictionary requires each
  of its keys to be present in the data (\<open>None\<close>: present, any value), recurses into
  nested dictionaries and ignores extra keys of the data. A violation names the path of
  the offending key.
\<close>

fun split_on :: "char \<Rightarrow> string \<Rightarrow> string list" where
  "split_on c [] = [[]]"
| "split_on c (x # xs) =
     (if x = c then [] # split_on c xs
      else (case split_on c xs of [] \<Rightarrow> [[x]] | w # ws \<Rightarrow> (x # w) # ws))"

fun dim_names :: "tensor_spec \<Rightarrow> string list" where
  "dim_names (TfTensorSpec s bound) = split_on CHR '','' (filter (\<lambda>c. c \<noteq> CHR '' '') s)"

fun first_mismatch :: "(string \<times> int) list \<Rightarrow> string list \<Rightarrow> nat list \<Rightarrow> violation option" where
  "first_mismatch bound (n # ns) (d # ds) =
     (case map_of bound n of
        None \<Rightarrow> first_mismatch bound ns ds
      | Some v \<Rightarrow> if int d = v then first_mismatch bound ns ds else Some (DimMismatch n v d))"
| "first_mismatch bound _ _ = None"

fun check_tensor :: "tensor_spec \<Rightarrow> 'a tensor \<Rightarrow> violation option" where
  "check_tensor (TfTensorSpec s bound) t =
     (let names = dim_names (TfTensorSpec s bound) in
      if length (shape t) \<noteq> length names
      then Some (RankMismatch (length names) (length (shape t)))
      else first_mismatch bound names (shape t))"

fun validate :: "spec \<Rightarrow> 'a nested \<Rightarrow> (key list \<times> violation) option"
  and validate_items :: "(key \<times> spec) list \<Rightarrow> (key \<times> 'a nested) list \<Rightarrow> (key list \<times> violation) option"
  where
  "validate NoSpec x = None"
| "validate (TensorSpec ts) x =
     (case x of
        Leaf t \<Rightarrow> (case check_tensor ts t of None \<Rightarrow> None | Some v \<Rightarrow> Some ([], v))
      | _ \<Rightarrow> Some ([], NotATensor))"
| "validate (SpecDict kss) x =
     (case x of Dict kvs \<Rightarrow> validate_items kss kvs | _ \<Rightarrow> Some ([], NotAMapping))"
| "validate_items [] kvs = None"
| "validate_items ((k, s) # kss) kvs =
     (case map_of kvs k of
        None \<Rightarrow> Some ([k], MissingKey)
      | Some x \<Rightarrow>
          (case validate s x of
             Some (path, v) \<Rightarrow> Some (k # path, v)
           | None \<Rightarrow> validate_items kss kvs))"

text \<open>
  Modelled from the spec: \<open>forward\<close> of the \<open>Encoder\<close> contract (the base classes are
  imported and not part of \<open>encoder.py\<close>). It validates the inputs against
  \<open>get_input_specs()\<close> and fails with \<open>InputSpecViolation\<close> on mismatch, delegates to
  \<open>_forward\<close>, validates the result against \<open>get_output_specs()\<close> and fails with
  \<open>OutputSpecViolation\<close> on mismatch, and returns the result.
\<close>

definition Encoder_forward ::
  "error + spec \<Rightarrow> ('a nested \<Rightarrow> error + 'a nested) \<Rightarrow> error + spec \<Rightarrow> 'a nested
   \<Rightarrow> error + 'a nested" where
  "Encoder_forward get_input_specs forward' get_output_specs inputs =
     ebind get_input_specs (\<lambda>input_specs.
     (case validate input_specs inputs of
        Some (path, v) \<Rightarrow> Inl (InputSpecViolation path v)
      | None \<Rightarrow>
          ebind (forward' inputs) (\<lambda>result.
          ebind get_output_specs (\<lambda>output_specs.
          (case validate output_specs result of
             Some (path, v) \<Rightarrow> Inl (OutputSpecViolation path v)
           | None \<Rightarrow> Inr result)))))"

definition TfCNNEncoder_forward :: "'a TfCNNEncoder \<Rightarrow> 'a nested \<Rightarrow> error + 'a nested" where
  "TfCNNEncoder_forward self =
     Encoder_forward (TfCNNEncoder_get_input_specs self) (TfCNNEncoder__forward self)
       (TfCNNEncoder_get_output_specs self)"

definition TfMLPEncoder_forward :: "'a TfMLPEncoder \<Rightarrow> 'a nested \<Rightarrow> error + 'a nested" where
  "TfMLPEncoder_forward self =
     Encoder_forward (TfMLPEncoder_get_input_specs self) (TfMLPEncoder__forward self)
       (TfMLPEncoder_get_output_specs self)"

definition TfLSTMEncoder_forward ::
  "'a tf_module \<Rightarrow> 'a TfLSTMEncoder \<Rightarrow> 'a nested \<Rightarrow> error + 'a nested" where
  "TfLSTMEncoder_forward tf self =
     Encoder_forward (TfLSTMEncoder_get_input_specs self) (TfLSTMEncoder__forward tf self)
       (TfLSTMEncoder_get_output_specs self)"

section \<open>TfActorCriticEncoder\<close>

text \<open>
  What the composite needs of a sub-encoder: its \<open>forward\<close> and its \<open>get_output_specs\<close>.
\<close>

record 'a Encoder =
  forward :: "'a nested \<Rightarrow> error + 'a nested"
  get_output_specs :: "error + spec"

record ('a, 'c) TfActorCriticEncoder = "'c Model" +
  actor_encoder :: "'a Encoder"
  critic_encoder :: "'a Encoder"

text \<open>
  \<open>TfActorCriticEncoder.__init__\<close>: calls \<open>TfModel.__init__\<close>, then
  \<open>ActorCriticEncoder.__init__\<close>. The latter is imported; \<open>build\<close> stands for the two
  sub-encoders it creates from the configuration.
\<close>

definition TfActorCriticEncoder_init ::
  "('c \<Rightarrow> 'a Encoder \<times> 'a Encoder) \<Rightarrow> 'c \<Rightarrow> ('a, 'c) TfActorCriticEncoder" where
  "TfActorCriticEncoder_init build cfg =
     \<lparr>config = cfg, init_calls = [TfModel_init, ActorCriticEncoder_init],
      actor_encoder = fst (build cfg), critic_encoder = snd (build cfg)\<rparr>"

text \<open>
  Modelled from the spec: \<open>forward\<close> of the composite (\<open>ActorCriticEncoder\<close> is imported and
  not part of \<open>encoder.py\<close>). It calls both sub-encoders' \<open>forward\<close> with the same inputs
  and returns a nested dictionary with two top-level keys holding each sub-encoder's
  full output; a sub-encoder's failure surfaces unchanged.
\<close>

definition ActorCriticEncoder_forward ::
  "('a, 'c) TfActorCriticEncoder \<Rightarrow> 'a nested \<Rightarrow> error + 'a nested" where
  "ActorCriticEncoder_forward self inputs =
     ebind (forward (actor_encoder self) inputs) (\<lambda>actor_out.
     ebind (forward (critic_encoder self) inputs) (\<lambda>critic_out.
     Inr (Dict [(ACTOR, actor_out), (CRITIC, critic_out)])))"

definition TfCNNEncoder_as_Encoder :: "'a TfCNNEncoder \<Rightarrow> 'a Encoder" where
  "TfCNNEncoder_as_Encoder self =
     \<lparr>forward = TfCNNEncoder_forward self, get_output_specs = TfCNNEncoder_get_output_specs self\<rparr>"

definition TfMLPEncoder_as_Encoder :: "'a TfMLPEncoder \<Rightarrow> 'a Encoder" where
  "TfMLPEncoder_as_Encoder self =
     \<lparr>forward = TfMLPEncoder_forward self, get_output_specs = TfMLPEncoder_get_output_specs self\<rparr>"

section \<open>The recurrent algorithm in the spec's words\<close>

text \<open>
  The spec's description of the recurrent encoder, step by step, written directly over
  tensors and independently of \<open>_forward\<close>: (1) cast the input; (2) transpose the incoming
  state from batch-first to layers-first; (3) iterate the cells in order, cell \<open>i\<close>
  consuming the \<open>i\<close>-th layer's slice of hidden and cell state and the previous cell's
  sequence output; (4) stack the per-layer hidden and cell outputs into one batch-first
  tensor each; (5) apply the output projection to the last cell's output sequence.
  \<open>None\<close> when a step cannot be carried out.
\<close>

definition spec_cast :: "('a \<Rightarrow> 'a) \<Rightarrow> 'a tensor \<Rightarrow> 'a tensor" where
  "spec_cast dtype x = Tensor (shape x) (map dtype (elems x))"

definition spec_layers_first :: "'a tensor \<Rightarrow> 'a tensor option" where
  "spec_layers_first s =
     (case shape s of
        [B, L, H] \<Rightarrow>
          Some (Tensor [L, B, H] [at s [b, l, k]. l \<leftarrow> [0..<L], b \<leftarrow> [0..<B], k \<leftarrow> [0..<H]])
      | _ \<Rightarrow> None)"

definition spec_layer_slice :: "'a tensor \<Rightarrow> nat \<Rightarrow> 'a tensor option" where
  "spec_layer_slice s i =
     (case shape s of
        [L, B, H] \<Rightarrow>
          if i < L then Some (Tensor [B, H] [at s [i, b, k]. b \<leftarrow> [0..<B], k \<leftarrow> [0..<H]])
          else None
      | _ \<Rightarrow> None)"

text \<open>The output sequence and the collected states after the first \<open>n\<close> cells.\<close>

fun spec_cells ::
  "'a lstm_layer list \<Rightarrow> 'a tensor \<Rightarrow> 'a tensor \<Rightarrow> 'a tensor \<Rightarrow> nat
   \<Rightarrow> ('a tensor \<times> 'a tensor list \<times> 'a tensor list) option" where
  "spec_cells cells x h_lf c_lf 0 = Some (x, [], [])"
| "spec_cells cells x h_lf c_lf (Suc i) =
     (case spec_cells cells x h_lf c_lf i of
        None \<Rightarrow> None
      | Some (seq, hs, cs) \<Rightarrow>
          (case (spec_layer_slice h_lf i, spec_layer_slice c_lf i) of
             (Some h_i, Some c_i) \<Rightarrow>
               (case (cells ! i) seq (h_i, c_i) of
                  Inr (seq', h', c') \<Rightarrow> Some (seq', hs @ [h'], cs @ [c'])
                | Inl e \<Rightarrow> None)
           | _ \<Rightarrow> None))"

definition spec_batch_first :: "'a tensor list \<Rightarrow> 'a tensor option" where
  "spec_batch_first vs =
     (case vs of
        [] \<Rightarrow> None
      | v # _ \<Rightarrow>
          (case shape v of
             [] \<Rightarrow> None
           | B # rest \<Rightarrow>
               if list_all (\<lambda>u. shape u = B # rest) vs
               then Some (Tensor (B # length vs # rest)
                      [at (vs ! l) (b # idx).
                         b \<leftarrow> [0..<B], l \<leftarrow> [0..<length vs], idx \<leftarrow> indices rest])
               else None))"

definition spec_lstm_algorithm ::
  "('a \<Rightarrow> 'a) \<Rightarrow> 'a lstm_layer list \<Rightarrow> 'a layer \<Rightarrow> 'a tensor \<Rightarrow> 'a tensor \<Rightarrow> 'a tensor
   \<Rightarrow> ('a tensor \<times> 'a tensor \<times> 'a tensor) option" where
  "spec_lstm_algorithm dtype cells projection obs h_in c_in =
     (case (spec_layers_first h_in, spec_layers_first c_in) of
        (Some h_lf, Some c_lf) \<Rightarrow>
          (case spec_cells cells (spec_cast dtype obs) h_lf c_lf (length cells) of
             None \<Rightarrow> None
           | Some (seq, hs, cs) \<Rightarrow>
               (case (spec_batch_first hs, spec_batch_first cs, projection seq) of
                  (Some h_out, Some c_out, Inr out) \<Rightarrow> Some (out, h_out, c_out)
                | _ \<Rightarrow> None))
      | _ \<Rightarrow> None)"

section \<open>What is assumed of the external layers\<close>

text \<open>
  The layer mathematics belongs to the tensor library. Where a property depends on it,
  the layers' standard call contract is an explicit hypothesis.

  A recurrent layer accepts a rank-3 sequence together with two states of shape
  (batch, units), where batch is the sequence's batch axis (the second axis when the
  layer is time-major), and returns a sequence of the same leading axes with \<open>units\<close>
  features. Whenever it returns, the states it returns are shaped like the states it was
  given.
\<close>

definition lstm_accepts :: "LSTM_args \<Rightarrow> 'a lstm_layer \<Rightarrow> bool" where
  "lstm_accepts args layer \<longleftrightarrow>
     (\<forall>seq h c d0 d1 d.
        shape seq = [d0, d1, d]
        \<and> shape h = [if time_major args then d1 else d0, nat (lstm_units args)]
        \<and> shape c = [if time_major args then d1 else d0, nat (lstm_units args)]
        \<longrightarrow> (\<exists>seq' h' c'. layer seq (h, c) = Inr (seq', h', c')
               \<and> shape seq' = [d0, d1, nat (lstm_units args)]))"

definition lstm_keeps_state_shape :: "'a lstm_layer \<Rightarrow> bool" where
  "lstm_keeps_state_shape layer \<longleftrightarrow>
     (\<forall>seq h c seq' h' c'.
        layer seq (h, c) = Inr (seq', h', c') \<longrightarrow> shape h' = shape h \<and> shape c' = shape c)"

definition lstm_layer_ok :: "LSTM_args \<Rightarrow> 'a lstm_layer \<Rightarrow> bool" where
  "lstm_layer_ok args layer \<longleftrightarrow> lstm_accepts args layer \<and> lstm_keeps_state_shape layer"

text \<open>A dense layer maps the last axis to \<open>units\<close> features and keeps the leading axes.\<close>

definition dense_layer_ok :: "'a Dense_args \<Rightarrow> 'a layer \<Rightarrow> bool" where
  "dense_layer_ok args layer \<longleftrightarrow>
     (\<forall>x s n. shape x = s @ [n] \<and> s \<noteq> []
        \<longrightarrow> (\<exists>y. layer x = Inr y \<and> shape y = s @ [nat (units args)]))"

text \<open>A flatten layer keeps the batch axis and merges the others.\<close>

definition flatten_layer_ok :: "'a layer \<Rightarrow> bool" where
  "flatten_layer_ok layer \<longleftrightarrow>
     (\<forall>x b rest. shape x = b # rest
        \<longrightarrow> (\<exists>y. layer x = Inr y \<and> shape y = [b, prod_list rest]))"

text \<open>
  The bare CNN accepts a batch of images of the configured input dimensions and returns
  a batch, of the same size, of feature maps.
\<close>

definition cnn_layer_ok :: "TfCNN_args \<Rightarrow> 'a layer \<Rightarrow> bool" where
  "cnn_layer_ok args layer \<longleftrightarrow>
     (\<forall>x b w h c. shape x = [b, w, h, c] \<and> take 3 (cnn_input_dims args) = [int w, int h, int c]
        \<longrightarrow> (\<exists>y w' h' c'. layer x = Inr y \<and> shape y = [b, w', h', c']))"

text \<open>The MLP maps a batch of \<open>input_dim\<close> features to a batch of \<open>output_dim\<close> features.\<close>

definition mlp_layer_ok :: "TfMLP_args \<Rightarrow> 'a layer \<Rightarrow> bool" where
  "mlp_layer_ok args layer \<longleftrightarrow>
     (\<forall>x b n. shape x = [b, n] \<and> int n = mlp_input_dim args
        \<longrightarrow> (\<exists>y. layer x = Inr y \<and> shape y = [b, nat (mlp_output_dim args)]))"

definition layers_ok :: "'a tf_module \<Rightarrow> bool" where
  "layers_ok tf \<longleftrightarrow>
     (\<forall>k args. lstm_layer_ok args (keras_LSTM tf k args))
   \<and> (\<forall>k args. dense_layer_ok args (keras_Dense tf k args))
   \<and> (\<forall>k. flatten_layer_ok (keras_Flatten tf k))
   \<and> (\<forall>k args. cnn_layer_ok args (TfCNN tf k args))
   \<and> (\<forall>k args. mlp_layer_ok args (TfMLP tf k args))"

text \<open>A value conforms to what \<open>get_input_specs()\<close> or \<open>get_output_specs()\<close> returns.\<close>

definition conforms :: "error + spec \<Rightarrow> 'a nested \<Rightarrow> bool" where
  "conforms specs x = (case specs of Inl e \<Rightarrow> False | Inr s \<Rightarrow> validate s x = None)"

text \<open>
  The batch size a recurrent encoder's layers see in an observation: the first axis, or
  the second when the configuration is time-major.
\<close>

definition obs_batch :: "LSTMEncoderConfig \<Rightarrow> 'a tensor \<Rightarrow> nat" where
  "obs_batch cfg obs = (if batch_major cfg then shape obs ! 0 else shape obs ! 1)"

text \<open>A sub-encoder whose \<open>forward\<close> is the contract's, checking its own output specs.\<close>

definition contract_encoder :: "'a Encoder \<Rightarrow> bool" where
  "contract_encoder e \<longleftrightarrow>
     (\<exists>input_specs forward'. forward e = Encoder_forward input_specs forward' (get_output_specs e))"

section \<open>Stand-in layers and sample objects\<close>

text \<open>
  Stand-ins for the external layers, over integer elements, that honour the contracts
  above and reject every other input, as the library rejects incompatible shapes. They
  give the theorems below concrete encoders to run.
\<close>

definition demo_LSTM :: "nat \<Rightarrow> LSTM_args \<Rightarrow> int lstm_layer" where
  "demo_LSTM k args seq hc =
     (case hc of (h, c) \<Rightarrow>
        (case shape seq of
           [d0, d1, d] \<Rightarrow>
             if shape h = [if time_major args then d1 else d0, nat (lstm_units args)]
                \<and> shape c = shape h
             then Inr (Tensor [d0, d1, nat (lstm_units args)]
                         (replicate (d0 * d1 * nat (lstm_units args)) (int k)),
                       Tensor (shape h) (map (\<lambda>v. v + 1) (elems h)),
                       Tensor (shape c) (map (\<lambda>v. 2 * v) (elems c)))
             else Inl TfError
         | _ \<Rightarrow> Inl TfError))"

definition demo_Dense :: "nat \<Rightarrow> int Dense_args \<Rightarrow> int layer" where
  "demo_Dense k args x =
     (if length (shape x) < 2 then Inl TfError
      else Inr (Tensor (butlast (shape x) @ [nat (units args)])
                  (replicate (prod_list (butlast (shape x)) * nat (units args)) 0)))"

definition demo_Flatten :: "nat \<Rightarrow> int layer" where
  "demo_Flatten k x =
     (case shape x of
        [] \<Rightarrow> Inl TfError
      | b # rest \<Rightarrow> Inr (Tensor [b, prod_list rest] (elems x)))"

definition demo_TfCNN :: "nat \<Rightarrow> TfCNN_args \<Rightarrow> int layer" where
  "demo_TfCNN k args x =
     (if length (shape x) = 4 \<and> map int (tl (shape x)) = take 3 (cnn_input_dims args)
      then Inr x else Inl TfError)"

definition demo_TfMLP :: "nat \<Rightarrow> TfMLP_args \<Rightarrow> int layer" where
  "demo_TfMLP k args x =
     (case shape x of
        [b, n] \<Rightarrow>
          if int n = mlp_input_dim args
          then Inr (Tensor [b, nat (mlp_output_dim args)]
                      (replicate (b * nat (mlp_output_dim args)) 0))
          else Inl TfError
      | _ \<Rightarrow> Inl TfError)"

definition demo_tf :: "int tf_module" where
  "demo_tf =
     \<lparr>float32 = id, keras_LSTM = demo_LSTM, keras_Dense = demo_Dense,
      keras_Flatten = demo_Flatten, TfCNN = demo_TfCNN, TfMLP = demo_TfMLP,
      get_activation_fn = (\<lambda>name framework. None)\<rparr>"

text \<open>
  The sample recurrent configuration, as the spec describes one: it has
  \<open>num_lstm_layers\<close> and no attribute \<open>num_layers\<close>.
\<close>

definition demo_lstm_config :: LSTMEncoderConfig where
  "demo_lstm_config =
     \<lparr>input_dims = [2], output_dims = [4], output_activation = ''linear'', use_bias = True,
      hidden_dim = 3, num_lstm_layers = 2, batch_major = True, num_layers = None\<rparr>"

definition demo_lstm_encoder :: "int TfLSTMEncoder" where
  "demo_lstm_encoder = projr (TfLSTMEncoder_init demo_tf demo_lstm_config)"

text \<open>A batch of 2, 2 layers, hidden dimension 3: state-in \<open>h[b, l, k] = 100 b + 10 l + k\<close>.\<close>

definition demo_h_in :: "int tensor" where
  "demo_h_in = Tensor [2, 2, 3] [0, 1, 2, 10, 11, 12, 100, 101, 102, 110, 111, 112]"

definition demo_c_in :: "int tensor" where
  "demo_c_in = Tensor [2, 2, 3] [0, 1, 2, 10, 11, 12, 100, 101, 102, 110, 111, 112]"

definition demo_lstm_obs :: "int tensor" where
  "demo_lstm_obs = Tensor [2, 1, 2] [7, 7, 7, 7]"

definition demo_state_in :: "int nested" where
  "demo_state_in = Dict [(Str ''h'', Leaf demo_h_in), (Str ''c'', Leaf demo_c_in)]"

definition demo_lstm_inputs :: "int nested" where
  "demo_lstm_inputs = Dict [(OBS, Leaf demo_lstm_obs), (STATE_IN, demo_state_in)]"

definition demo_h_out :: "int tensor" where
  "demo_h_out = Tensor [2, 2, 3] [1, 2, 3, 11, 12, 13, 101, 102, 103, 111, 112, 113]"

definition demo_c_out :: "int tensor" where
  "demo_c_out = Tensor [2, 2, 3] [0, 2, 4, 20, 22, 24, 200, 202, 204, 220, 222, 224]"

definition demo_lstm_result :: "int nested" where
  "demo_lstm_result =
     Dict [(ENCODER_OUT, Leaf (Tensor [2, 1, 4] (replicate 8 0))),
           (STATE_OUT, Dict [(Str ''h'', Leaf demo_h_out), (Str ''c'', Leaf demo_c_out)])]"

definition demo_cnn_config :: CNNEncoderConfig where
  "demo_cnn_config =
     \<lparr>input_dims = [4, 4, 3], output_dims = [8], output_activation = ''linear'',
      use_bias = True, cnn_filter_specifiers = [[16, 2, 1]], cnn_activation = ''relu'',
      cnn_use_layernorm = False\<rparr>"

definition demo_cnn_encoder :: "int TfCNNEncoder" where
  "demo_cnn_encoder = projr (TfCNNEncoder_init demo_tf demo_cnn_config)"

definition demo_state :: "int nested" where
  "demo_state = Leaf (Tensor [2, 1] [5, 6])"

definition demo_cnn_inputs :: "int nested" where
  "demo_cnn_inputs =
     Dict [(OBS, Leaf (Tensor [2, 4, 4, 3] (replicate 96 1))), (STATE_IN, demo_state),
           (SEQ_LENS, NoneV)]"

definition demo_cnn_result :: "int nested" where
  "demo_cnn_result =
     Dict [(ENCODER_OUT, Leaf (Tensor [2, 8] (replicate 16 0))), (STATE_OUT, demo_state)]"

definition demo_mlp_config :: MLPEncoderConfig where
  "demo_mlp_config =
     \<lparr>input_dims = [2], output_dims = [3], output_activation = ''linear'', use_bias = True,
      hidden_layer_dims = [8], hidden_layer_activation = ''relu'',
      hidden_layer_use_layernorm = False\<rparr>"

definition demo_mlp_encoder :: "int TfMLPEncoder" where
  "demo_mlp_encoder = projr (TfMLPEncoder_init demo_tf demo_mlp_config)"

definition demo_mlp_inputs :: "int nested" where
  "demo_mlp_inputs = Dict [(OBS, Leaf (Tensor [2, 2] [1, 2, 3, 4])), (STATE_IN, demo_state)]"

definition demo_mlp_result :: "int nested" where
  "demo_mlp_result =
     Dict [(ENCODER_OUT, Leaf (Tensor [2, 3] (replicate 6 0))), (STATE_OUT, NoneV)]"

definition demo_cnn_config2 :: CNNEncoderConfig where
  "demo_cnn_config2 =
     \<lparr>input_dims = [4, 4, 3], output_dims = [5], output_activation = ''tanh'',
      use_bias = False, cnn_filter_specifiers = [[8, 3, 1]], cnn_activation = ''relu'',
      cnn_use_layernorm = True\<rparr>"

definition demo_cnn_encoder2 :: "int TfCNNEncoder" where
  "demo_cnn_encoder2 = projr (TfCNNEncoder_init demo_tf demo_cnn_config2)"

text \<open>A composite over two sub-encoders of distinct configurations.\<close>

definition demo_build :: "unit \<Rightarrow> int Encoder \<times> int Encoder" where
  "demo_build cfg =
     (TfCNNEncoder_as_Encoder demo_cnn_encoder, TfCNNEncoder_as_Encoder demo_cnn_encoder2)"

definition demo_ac_encoder :: "(int, unit) TfActorCriticEncoder" where
  "demo_ac_encoder = TfActorCriticEncoder_init demo_build ()"

text \<open>
  Inputs that conform to the sample recurrent encoder's input spec: one with a further
  entry in the state, one whose state has batch size 3 against the observation's 2; and
  a recurrent encoder without layers, with a conforming input.
\<close>

definition demo_lstm_inputs_extra :: "int nested" where
  "demo_lstm_inputs_extra =
     Dict [(OBS, Leaf demo_lstm_obs),
           (STATE_IN, Dict [(Str ''h'', Leaf demo_h_in), (Str ''c'', Leaf demo_c_in),
                            (Str ''mask'', Leaf (Tensor [2] [1, 1]))])]"

definition demo_lstm_inputs_batch3 :: "int nested" where
  "demo_lstm_inputs_batch3 =
     Dict [(OBS, Leaf demo_lstm_obs),
           (STATE_IN, Dict [(Str ''h'', Leaf (Tensor [3, 2, 3] (replicate 18 0))),
                            (Str ''c'', Leaf (Tensor [3, 2, 3] (replicate 18 0)))])]"

definition demo_lstm_encoder0 :: "int TfLSTMEncoder" where
  "demo_lstm_encoder0 =
     projr (TfLSTMEncoder_init demo_tf (demo_lstm_config\<lparr>num_lstm_layers := 0\<rparr>))"

definition demo_lstm_inputs0 :: "int nested" where
  "demo_lstm_inputs0 =
     Dict [(OBS, Leaf demo_lstm_obs),
           (STATE_IN, Dict [(Str ''h'', Leaf (Tensor [2, 0, 3] [])),
                            (Str ''c'', Leaf (Tensor [2, 0, 3] []))])]"

text \<open>The CNN scenario's inputs: observations of shape (2, 4, 4, 3) and (2, 5, 4, 3).\<close>

definition demo_cnn_inputs_wide :: "int nested" where
  "demo_cnn_inputs_wide =
     Dict [(OBS, Leaf (Tensor [2, 5, 4, 3] (replicate 120 1))), (STATE_IN, demo_state),
           (SEQ_LENS, NoneV)]"

definition demo_mlp_inputs_no_obs :: "int nested" where
  "demo_mlp_inputs_no_obs = Dict [(STATE_IN, demo_state)]"

text \<open>A composite whose value path is an MLP encoder: it rejects image observations.\<close>

definition demo_ac_mixed :: "(int, unit) TfActorCriticEncoder" where
  "demo_ac_mixed =
     TfActorCriticEncoder_init
       (\<lambda>cfg. (TfCNNEncoder_as_Encoder demo_cnn_encoder, TfMLPEncoder_as_Encoder demo_mlp_encoder))
       ()"

section \<open>Basic facts\<close>

lemma ebind_Inl [simp]: "ebind (Inl e) f = Inl e"
  by (simp add: ebind_def)

lemma ebind_Inr [simp]: "ebind (Inr x) f = f x"
  by (simp add: ebind_def)

lemma ebind_eq_Inr: "ebind m f = Inr y \<longleftrightarrow> (\<exists>x. m = Inr x \<and> f x = Inr y)"
  by (cases m) simp_all

lemma length_concat_uniform:
  "(\<And>i. i < n \<Longrightarrow> length (f i) = m) \<Longrightarrow> length (concat (map f [0..<n])) = n * m"
  by (induction n) auto

lemma nth_concat_uniform:
  "(\<And>i. i < n \<Longrightarrow> length (f i) = m) \<Longrightarrow> i < n \<Longrightarrow> j < m \<Longrightarrow>
   concat (map f [0..<n]) ! (i * m + j) = f i ! j"
proof (induction n)
  case 0
  then show ?case by simp
next
  case (Suc n)
  have len: "length (concat (map f [0..<n])) = n * m"
    using Suc.prems(1) by (intro length_concat_uniform) simp
  show ?case
  proof (cases "i < n")
    case True
    have "i * m + j < n * m"
    proof -
      have "i * m + j < i * m + m" using Suc.prems(3) by simp
      also have "\<dots> = Suc i * m" by simp
      also have "\<dots> \<le> n * m" using True by (intro mult_le_mono1) simp
      finally show ?thesis .
    qed
    then show ?thesis
      using Suc.IH[OF _ True Suc.prems(3)] Suc.prems(1) len by (simp add: nth_append)
  next
    case False
    then have "i = n" using Suc.prems(2) by simp
    then show ?thesis using len Suc.prems by (simp add: nth_append)
  qed
qed

lemma length_indices: "length (indices s) = prod_list s"
proof (induction s)
  case Nil
  then show ?case by simp
next
  case (Cons d ds)
  have "length (concat (map (\<lambda>i. map ((#) i) (indices ds)) [0..<d])) = d * prod_list ds"
    by (rule length_concat_uniform) (simp add: Cons.IH)
  then show ?case by simp
qed

lemma offset_less: "valid_idx s idx \<Longrightarrow> offset s idx < prod_list s"
proof (induction s idx rule: valid_idx.induct)
  case (2 d ds i "is")
  then have "i * prod_list ds + offset ds is < i * prod_list ds + prod_list ds" by simp
  also have "\<dots> = Suc i * prod_list ds" by simp
  also have "\<dots> \<le> d * prod_list ds" using 2 by (intro mult_le_mono1) simp
  finally show ?case by simp
qed simp_all

lemma indices_nth: "valid_idx s idx \<Longrightarrow> indices s ! offset s idx = idx"
proof (induction s idx rule: valid_idx.induct)
  case (2 d ds i "is")
  have "concat (map (\<lambda>i. map ((#) i) (indices ds)) [0..<d]) ! (i * prod_list ds + offset ds is)
        = map ((#) i) (indices ds) ! offset ds is"
    using 2 by (intro nth_concat_uniform) (simp_all add: length_indices offset_less)
  then show ?case using 2 by (simp add: length_indices offset_less)
qed simp_all

lemma at_tabulate:
  "valid_idx s idx \<Longrightarrow> at (Tensor s (map f (indices s))) idx = f idx"
  by (simp add: at_def indices_nth length_indices offset_less)

lemma upt_3: "[0..<3] = [0, Suc 0, 2]"
  by (simp add: upt_rec numeral_nat)

lemma tf_transpose_102:
  assumes "shape t = [B, L, H]"
  shows "\<exists>T. tf_transpose (Leaf t) [1, 0, 2] = Inr T \<and> shape T = [L, B, H]
           \<and> (\<forall>l b k. l < L \<and> b < B \<and> k < H \<longrightarrow> at T [l, b, k] = at t [b, l, k])"
proof -
  let ?f = "\<lambda>idx. at t [idx ! 1, idx ! 0, idx ! 2]"
  let ?T = "Tensor [L, B, H] (map ?f (indices [L, B, H]))"
  have "tf_transpose (Leaf t) [1, 0, 2] = Inr ?T"
    using assms by (simp add: tf_transpose_def upt_3)
  moreover have "at ?T [l, b, k] = at t [b, l, k]" if "l < L" "b < B" "k < H" for l b k
  proof -
    have "at ?T [l, b, k] = ?f [l, b, k]"
      using that by (intro at_tabulate) simp
    also have "\<dots> = at t [b, l, k]" by simp
    finally show ?thesis .
  qed
  ultimately show ?thesis by auto
qed

lemma tf_transpose_102_Inr:
  assumes "tf_transpose x [1, 0, 2] = Inr T"
  shows "\<exists>t B L H. x = Leaf t \<and> shape t = [B, L, H] \<and> shape T = [L, B, H]
           \<and> (\<forall>l b k. l < L \<and> b < B \<and> k < H \<longrightarrow> at T [l, b, k] = at t [b, l, k])"
proof -
  from assms obtain t where x: "x = Leaf t"
    by (cases x) (simp_all add: tf_transpose_def)
  from assms x have "length (shape t) = 3"
    by (simp add: tf_transpose_def split: if_splits)
  then obtain B L H where sh: "shape t = [B, L, H]"
    by (auto simp: length_Suc_conv numeral_3_eq_3)
  from tf_transpose_102[OF sh] assms x sh show ?thesis by auto
qed

lemma getitem_Idx:
  assumes "shape t = d # ds" "i < d"
  shows "\<exists>S. getitem (Leaf t) (Idx i) = Inr (Leaf S) \<and> shape S = ds
           \<and> (\<forall>idx. valid_idx ds idx \<longrightarrow> at S idx = at t (i # idx))"
  using assms by (simp add: at_tabulate)

lemma getitem_Idx_Inr:
  assumes "getitem (Leaf t) (Idx i) = Inr y"
  shows "\<exists>d ds S. shape t = d # ds \<and> i < d \<and> y = Leaf S \<and> shape S = ds
           \<and> (\<forall>idx. valid_idx ds idx \<longrightarrow> at S idx = at t (i # idx))"
  using assms by (auto simp: at_tabulate split: list.splits if_splits)

lemma tf_stack_1:
  assumes "tf_stack vs 1 = Inr R"
  shows "\<exists>B rest. (\<forall>v \<in> set vs. shape v = B # rest) \<and> vs \<noteq> [] \<and> shape R = B # length vs # rest
           \<and> (\<forall>l b idx. l < length vs \<and> valid_idx (B # rest) (b # idx)
                 \<longrightarrow> at R (b # l # idx) = at (vs ! l) (b # idx))"
proof -
  from assms obtain v vs' where vs: "vs = v # vs'"
    by (cases vs) (simp_all add: tf_stack_def)
  from assms vs have same: "list_all (\<lambda>u. shape u = shape v) vs'" and rk: "1 \<le> length (shape v)"
    by (simp_all add: tf_stack_def split: if_splits)
  from rk obtain B rest where sv: "shape v = B # rest"
    by (cases "shape v") simp_all
  let ?s = "B # length vs # rest"
  let ?f = "\<lambda>idx. at (vs ! (idx ! 1)) (take 1 idx @ drop (Suc 1) idx)"
  have R: "R = Tensor ?s (map ?f (indices ?s))"
    using assms vs same rk sv by (simp add: tf_stack_def)
  have all: "\<forall>u \<in> set vs. shape u = B # rest"
    using same sv vs by (auto simp: list_all_iff)
  have "at R (b # l # idx) = at (vs ! l) (b # idx)"
    if "l < length vs" "valid_idx (B # rest) (b # idx)" for l b idx
  proof -
    have "at R (b # l # idx) = ?f (b # l # idx)"
      unfolding R using that by (intro at_tabulate) simp
    then show ?thesis by simp
  qed
  with all R vs show ?thesis by auto
qed


lemma tensor_of_Inr: "tensor_of x = Inr t \<longleftrightarrow> x = Leaf t"
  by (cases x) (simp_all add: tensor_of_def)

lemma map_structure_items_lookup:
  assumes "map_structure_items f kvs = Inr kvs'" "map_of kvs k = Some v"
  shows "\<exists>v'. map_structure f v = Inr v' \<and> map_of kvs' k = Some v'"
  using assms
proof (induction kvs arbitrary: kvs')
  case Nil
  then show ?case by simp
next
  case (Cons kv kvs)
  obtain k0 v0 where kv: "kv = (k0, v0)" by (cases kv)
  from Cons.prems(1) kv obtain v0' kvs1 where
    v0: "map_structure f v0 = Inr v0'" and rest: "map_structure_items f kvs = Inr kvs1"
    and res: "kvs' = (k0, v0') # kvs1"
    by (auto simp: ebind_eq_Inr)
  show ?case
  proof (cases "k = k0")
    case True
    with Cons.prems(2) kv v0 res show ?thesis by simp
  next
    case False
    with Cons.prems(2) kv have "map_of kvs k = Some v" by simp
    from Cons.IH[OF rest this] False res show ?thesis by simp
  qed
qed

lemma map_structure_getitem_Leaf:
  assumes "map_structure f s = Inr s'" "getitem s (Str n) = Inr (Leaf t)"
  shows "\<exists>t'. f (Leaf t) = Inr t' \<and> getitem s' (Str n) = Inr (Leaf t')"
proof (cases s)
  case (Leaf u)
  with assms(2) show ?thesis by simp
next
  case NoneV
  with assms(2) show ?thesis by simp
next
  case (Dict kvs)
  with assms(1) obtain kvs' where items: "map_structure_items f kvs = Inr kvs'" and s': "s' = Dict kvs'"
    by (auto simp: ebind_eq_Inr)
  from assms(2) Dict have "map_of kvs (Str n) = Some (Leaf t)"
    by (simp split: option.splits)
  from map_structure_items_lookup[OF items this] s' show ?thesis
    by (auto simp: ebind_eq_Inr)
qed

lemma lstm_loop_calls:
  assumes "lstm_loop layers i states_in out hs0 cs0 = Inr (out', hs, cs)"
  shows "\<exists>outs hs' cs'. hs = hs0 @ hs' \<and> cs = cs0 @ cs'
          \<and> length hs' = length layers \<and> length cs' = length layers
          \<and> length outs = Suc (length layers) \<and> outs ! 0 = out \<and> outs ! length layers = out'
          \<and> (\<forall>l<length layers. \<exists>sh sc hi ci.
                getitem states_in (Str ''h'') = Inr sh \<and> getitem sh (Idx (i + l)) = Inr (Leaf hi)
              \<and> getitem states_in (Str ''c'') = Inr sc \<and> getitem sc (Idx (i + l)) = Inr (Leaf ci)
              \<and> (layers ! l) (outs ! l) (hi, ci) = Inr (outs ! Suc l, hs' ! l, cs' ! l))"
  using assms
proof (induction layers arbitrary: i out hs0 cs0)
  case Nil
  then show ?case by (intro exI[of _ "[out]"] exI[of _ "[]"]) simp
next
  case (Cons layer layers)
  from Cons.prems obtain sh shi sc sci hi ci out1 h c where
    sh: "getitem states_in (Str ''h'') = Inr sh" and shi: "getitem sh (Idx i) = Inr shi"
    and sc: "getitem states_in (Str ''c'') = Inr sc" and sci: "getitem sc (Idx i) = Inr sci"
    and hi: "tensor_of shi = Inr hi" and ci: "tensor_of sci = Inr ci"
    and call: "layer out (hi, ci) = Inr (out1, h, c)"
    and rest: "lstm_loop layers (Suc i) states_in out1 (hs0 @ [h]) (cs0 @ [c]) = Inr (out', hs, cs)"
    by (auto simp: ebind_eq_Inr)
  from Cons.IH[OF rest] obtain outs hs1 cs1 where
    eqs: "hs = (hs0 @ [h]) @ hs1" "cs = (cs0 @ [c]) @ cs1"
    and lens: "length hs1 = length layers" "length cs1 = length layers"
      "length outs = Suc (length layers)"
    and ends: "outs ! 0 = out1" "outs ! length layers = out'"
    and calls: "\<forall>l<length layers. \<exists>sh sc hi ci.
                getitem states_in (Str ''h'') = Inr sh \<and> getitem sh (Idx (Suc i + l)) = Inr (Leaf hi)
              \<and> getitem states_in (Str ''c'') = Inr sc \<and> getitem sc (Idx (Suc i + l)) = Inr (Leaf ci)
              \<and> (layers ! l) (outs ! l) (hi, ci) = Inr (outs ! Suc l, hs1 ! l, cs1 ! l)"
    by blast
  let ?outs = "out # outs" and ?hs = "h # hs1" and ?cs = "c # cs1"
  have step: "\<exists>sh sc hi ci.
                getitem states_in (Str ''h'') = Inr sh \<and> getitem sh (Idx (i + l)) = Inr (Leaf hi)
              \<and> getitem states_in (Str ''c'') = Inr sc \<and> getitem sc (Idx (i + l)) = Inr (Leaf ci)
              \<and> ((layer # layers) ! l) (?outs ! l) (hi, ci) = Inr (?outs ! Suc l, ?hs ! l, ?cs ! l)"
    if "l < length (layer # layers)" for l
  proof (cases l)
    case 0
    with sh shi sc sci hi ci call ends(1) show ?thesis
      by (simp add: tensor_of_Inr)
  next
    case (Suc l')
    with that have "l' < length layers" by simp
    with calls Suc show ?thesis by simp
  qed
  show ?case
    apply (rule exI[of _ ?outs], rule exI[of _ ?hs], rule exI[of _ ?cs])
    using eqs lens ends step by simp
qed

section \<open>The source operations against the spec's steps\<close>

lemma concat_map_singleton: "concat (map (\<lambda>x. [g x]) xs) = map g xs"
  by (induction xs) simp_all

lemma map_indices_Cons:
  "map f (indices (d # ds)) = concat (map (\<lambda>i. map (\<lambda>idx. f (i # idx)) (indices ds)) [0..<d])"
  by (simp add: map_concat comp_def)

lemma map_indices_3:
  "map f (indices [L, B, H]) = [f [l, b, k]. l \<leftarrow> [0..<L], b \<leftarrow> [0..<B], k \<leftarrow> [0..<H]]"
  by (simp only: map_indices_Cons indices.simps(1) list.map concat_map_singleton)

lemma map_indices_2:
  "map f (indices [B, H]) = [f [b, k]. b \<leftarrow> [0..<B], k \<leftarrow> [0..<H]]"
  by (simp only: map_indices_Cons indices.simps(1) list.map concat_map_singleton)

lemma transpose_iff_layers_first:
  "tf_transpose (Leaf t) [1, 0, 2] = Inr T \<longleftrightarrow> spec_layers_first t = Some T"
proof (cases "\<exists>B L H. shape t = [B, L, H]")
  case True
  then obtain B L H where sh: "shape t = [B, L, H]" by blast
  have "tf_transpose (Leaf t) [1, 0, 2]
          = Inr (Tensor [L, B, H] (map (\<lambda>idx. at t [idx ! 1, idx ! 0, idx ! 2]) (indices [L, B, H])))"
    using sh by (simp add: tf_transpose_def upt_3)
  also have "map (\<lambda>idx. at t [idx ! 1, idx ! 0, idx ! 2]) (indices [L, B, H])
          = [at t [b, l, k]. l \<leftarrow> [0..<L], b \<leftarrow> [0..<B], k \<leftarrow> [0..<H]]"
    by (simp only: map_indices_3) simp
  finally show ?thesis using sh by (auto simp: spec_layers_first_def)
next
  case False
  then have "length (shape t) \<noteq> 3"
    by (auto simp: length_Suc_conv numeral_3_eq_3)
  then have "tf_transpose (Leaf t) [1, 0, 2] = Inl TfError"
    by (simp add: tf_transpose_def)
  moreover have "spec_layers_first t = None"
    using False by (auto simp: spec_layers_first_def split: list.splits)
  ultimately show ?thesis by simp
qed

lemma spec_layers_first_shape:
  "spec_layers_first t = Some T \<Longrightarrow> length (shape T) = 3"
  by (auto simp: spec_layers_first_def split: list.splits)

lemma getitem_iff_layer_slice:
  assumes "length (shape T) = 3"
  shows "getitem (Leaf T) (Idx i) = Inr y \<longleftrightarrow> (\<exists>S. spec_layer_slice T i = Some S \<and> y = Leaf S)"
proof -
  from assms obtain L B H where sh: "shape T = [L, B, H]"
    by (auto simp: length_Suc_conv numeral_3_eq_3)
  have "map (\<lambda>idx. at T (i # idx)) (indices [B, H])
          = [at T [i, b, k]. b \<leftarrow> [0..<B], k \<leftarrow> [0..<H]]"
    by (simp only: map_indices_2)
  then show ?thesis using sh by (auto simp: spec_layer_slice_def)
qed

lemma stack_iff_batch_first:
  "tf_stack vs 1 = Inr R \<longleftrightarrow> spec_batch_first vs = Some R"
proof (cases vs)
  case Nil
  then show ?thesis by (simp add: tf_stack_def spec_batch_first_def)
next
  case (Cons v vs')
  show ?thesis
  proof (cases "shape v")
    case Nil
    with Cons show ?thesis by (simp add: tf_stack_def spec_batch_first_def)
  next
    case (Cons B rest)
    let ?n = "length vs"
    have el: "map (\<lambda>idx. at (vs ! (idx ! 1)) (take 1 idx @ drop (Suc 1) idx)) (indices (B # ?n # rest))
          = [at (vs ! l) (b # idx). b \<leftarrow> [0..<B], l \<leftarrow> [0..<?n], idx \<leftarrow> indices rest]"
      by (simp only: map_indices_Cons) simp
    have sh: "take 1 (shape v) @ [?n] @ drop 1 (shape v) = B # ?n # rest"
      using Cons by simp
    have "tf_stack vs 1 =
            (if list_all (\<lambda>u. shape u = shape v) vs'
             then Inr (Tensor (B # ?n # rest)
                    [at (vs ! l) (b # idx). b \<leftarrow> [0..<B], l \<leftarrow> [0..<?n], idx \<leftarrow> indices rest])
             else Inl TfError)"
      unfolding tf_stack_def using \<open>vs = v # vs'\<close> Cons el sh
      by (simp add: Let_def del: upt_Suc)
    moreover have "spec_batch_first vs =
            (if list_all (\<lambda>u. shape u = shape v) vs'
             then Some (Tensor (B # ?n # rest)
                    [at (vs ! l) (b # idx). b \<leftarrow> [0..<B], l \<leftarrow> [0..<?n], idx \<leftarrow> indices rest])
             else None)"
      unfolding spec_batch_first_def using \<open>vs = v # vs'\<close> Cons by simp
    ultimately show ?thesis by simp
  qed
qed

lemma spec_cells_None_mono:
  "spec_cells cells x h c n = None \<Longrightarrow> n \<le> m \<Longrightarrow> spec_cells cells x h c m = None"
proof (induction m)
  case 0
  then show ?case by simp
next
  case (Suc m)
  show ?case
  proof (cases "n = Suc m")
    case True
    with Suc.prems show ?thesis by simp
  next
    case False
    with Suc.prems have "n \<le> m" by simp
    from Suc.IH[OF Suc.prems(1) this] show ?thesis by simp
  qed
qed

lemma lstm_loop_iff_spec_cells:
  assumes "states_in = Dict [(Str ''h'', Leaf Th), (Str ''c'', Leaf Tc)]"
    and "length (shape Th) = 3" "length (shape Tc) = 3"
    and "cells = pre @ layers" "i = length pre"
    and "spec_cells cells x Th Tc i = Some (out, hs0, cs0)"
  shows "lstm_loop layers i states_in out hs0 cs0 = Inr r
           \<longleftrightarrow> spec_cells cells x Th Tc (length cells) = Some r"
  using assms(4-6)
proof (induction layers arbitrary: pre i out hs0 cs0)
  case Nil
  then show ?case by auto
next
  case (Cons layer layers)
  have nth: "cells ! i = layer" and le: "Suc i \<le> length cells"
    using Cons.prems by simp_all
  have gh: "getitem states_in (Str ''h'') = Inr (Leaf Th)"
    and gc: "getitem states_in (Str ''c'') = Inr (Leaf Tc)"
    using assms(1) by simp_all
  show ?case
  proof (cases "spec_layer_slice Th i")
    case None
    then have "\<And>y. getitem (Leaf Th) (Idx i) \<noteq> Inr y"
      using getitem_iff_layer_slice[OF assms(2)] by simp
    then have l: "\<And>r. lstm_loop (layer # layers) i states_in out hs0 cs0 \<noteq> Inr r"
      using gh by (auto simp: ebind_eq_Inr)
    have "spec_cells cells x Th Tc (Suc i) = None"
      using None Cons.prems(3) by simp
    from spec_cells_None_mono[OF this le] l show ?thesis by simp
  next
    case (Some hi)
    then have ghi: "getitem (Leaf Th) (Idx i) = Inr (Leaf hi)"
      using getitem_iff_layer_slice[OF assms(2)] by simp
    show ?thesis
    proof (cases "spec_layer_slice Tc i")
      case None
      then have "\<And>y. getitem (Leaf Tc) (Idx i) \<noteq> Inr y"
        using getitem_iff_layer_slice[OF assms(3)] by simp
      then have l: "\<And>r. lstm_loop (layer # layers) i states_in out hs0 cs0 \<noteq> Inr r"
        using gh gc by (auto simp: ebind_eq_Inr)
      have "spec_cells cells x Th Tc (Suc i) = None"
        using None Some Cons.prems(3) by simp
      from spec_cells_None_mono[OF this le] l show ?thesis by simp
    next
      case c: (Some ci)
      then have gci: "getitem (Leaf Tc) (Idx i) = Inr (Leaf ci)"
        using getitem_iff_layer_slice[OF assms(3)] by simp
      have loop: "lstm_loop (layer # layers) i states_in out hs0 cs0
                    = ebind (layer out (hi, ci)) (\<lambda>(out', h, c).
                        lstm_loop layers (Suc i) states_in out' (hs0 @ [h]) (cs0 @ [c]))"
        using gh gc ghi gci by (simp add: tensor_of_def)
      show ?thesis
      proof (cases "layer out (hi, ci)")
        case (Inl e)
        then have "spec_cells cells x Th Tc (Suc i) = None"
          using Some c Cons.prems(3) nth by simp
        from spec_cells_None_mono[OF this le] loop Inl show ?thesis by simp
      next
        case (Inr res)
        obtain out' h c' where res: "res = (out', h, c')" by (cases res)
        have step: "spec_cells cells x Th Tc (Suc i) = Some (out', hs0 @ [h], cs0 @ [c'])"
          using Some c Cons.prems(3) nth Inr res by simp
        have "lstm_loop layers (Suc i) states_in out' (hs0 @ [h]) (cs0 @ [c']) = Inr r
                \<longleftrightarrow> spec_cells cells x Th Tc (length cells) = Some r"
          using Cons.prems(1,2) step by (intro Cons.IH[of "pre @ [layer]"]) simp_all
        with loop Inr res show ?thesis by simp
      qed
    qed
  qed
qed

lemma map_structure_state:
  "map_structure f (Dict [(Str ''h'', Leaf h), (Str ''c'', Leaf c)]) = Inr s
     \<longleftrightarrow> (\<exists>Th Tc. f (Leaf h) = Inr Th \<and> f (Leaf c) = Inr Tc
            \<and> s = Dict [(Str ''h'', Leaf Th), (Str ''c'', Leaf Tc)])"
  by (auto simp: ebind_eq_Inr)

lemma tf_cast_Leaf: "tf_cast (Leaf x) dtype = Inr (spec_cast dtype x)"
  by (simp add: tf_cast_def spec_cast_def)

section \<open>The layer calls of the recurrent encoder\<close>

lemma lstm_forward_trace:
  assumes fwd: "TfLSTMEncoder__forward tf self inputs = Inr result"
    and st: "getitem inputs STATE_IN = Inr state_in"
    and h: "getitem state_in (Str ''h'') = Inr (Leaf h_in)"
    and c: "getitem state_in (Str ''c'') = Inr (Leaf c_in)"
  shows "\<exists>B L H B' L' H' outs hs cs h_out c_out.
      shape h_in = [B, L, H] \<and> shape c_in = [B', L', H']
    \<and> length outs = Suc (length (lstms self))
    \<and> length hs = length (lstms self) \<and> length cs = length (lstms self)
    \<and> (\<forall>l<length (lstms self). \<exists>h_l c_l.
          l < L \<and> l < L' \<and> shape h_l = [B, H] \<and> shape c_l = [B', H']
        \<and> (\<forall>b<B. \<forall>k<H. at h_l [b, k] = at h_in [b, l, k])
        \<and> (\<forall>b<B'. \<forall>k<H'. at c_l [b, k] = at c_in [b, l, k])
        \<and> (lstms self ! l) (outs ! l) (h_l, c_l) = Inr (outs ! Suc l, hs ! l, cs ! l))
    \<and> getitem result STATE_OUT = Inr (Dict [(Str ''h'', Leaf h_out), (Str ''c'', Leaf c_out)])
    \<and> tf_stack hs 1 = Inr h_out \<and> tf_stack cs 1 = Inr c_out
    \<and> (\<forall>l<length (lstms self). \<forall>b k. valid_idx (shape (hs ! l)) [b, k]
          \<longrightarrow> at h_out [b, l, k] = at (hs ! l) [b, k])
    \<and> (\<forall>l<length (lstms self). \<forall>b k. valid_idx (shape (cs ! l)) [b, k]
          \<longrightarrow> at c_out [b, l, k] = at (cs ! l) [b, k])"
proof -
  let ?f = "\<lambda>s. tf_transpose s [1, 0, 2]"
  let ?n = "length (lstms self)"
  from fwd st obtain obs out0 states_in out1 hs cs out2 h_out c_out where
    ms: "map_structure ?f state_in = Inr states_in"
    and loop: "lstm_loop (lstms self) 0 states_in out0 [] [] = Inr (out1, hs, cs)"
    and sh: "tf_stack hs 1 = Inr h_out" and sc: "tf_stack cs 1 = Inr c_out"
    and res: "result = Dict [(ENCODER_OUT, Leaf out2),
                (STATE_OUT, Dict [(Str ''h'', Leaf h_out), (Str ''c'', Leaf c_out)])]"
    unfolding TfLSTMEncoder__forward_def by (auto simp: ebind_eq_Inr)
  from map_structure_getitem_Leaf[OF ms h] obtain Th where
    Th: "?f (Leaf h_in) = Inr Th" "getitem states_in (Str ''h'') = Inr (Leaf Th)" by auto
  from map_structure_getitem_Leaf[OF ms c] obtain Tc where
    Tc: "?f (Leaf c_in) = Inr Tc" "getitem states_in (Str ''c'') = Inr (Leaf Tc)" by auto
  from tf_transpose_102_Inr[OF Th(1)] obtain B L H where
    hin: "shape h_in = [B, L, H]" "shape Th = [L, B, H]"
    and hat: "\<And>l b k. l < L \<Longrightarrow> b < B \<Longrightarrow> k < H \<Longrightarrow> at Th [l, b, k] = at h_in [b, l, k]"
    by auto
  from tf_transpose_102_Inr[OF Tc(1)] obtain B' L' H' where
    cin: "shape c_in = [B', L', H']" "shape Tc = [L', B', H']"
    and cat: "\<And>l b k. l < L' \<Longrightarrow> b < B' \<Longrightarrow> k < H' \<Longrightarrow> at Tc [l, b, k] = at c_in [b, l, k]"
    by auto
  from lstm_loop_calls[OF loop] obtain outs where
    lens: "length hs = ?n" "length cs = ?n" "length outs = Suc ?n"
    and calls: "\<And>l. l < ?n \<Longrightarrow> \<exists>sh sc hi ci.
                getitem states_in (Str ''h'') = Inr sh \<and> getitem sh (Idx l) = Inr (Leaf hi)
              \<and> getitem states_in (Str ''c'') = Inr sc \<and> getitem sc (Idx l) = Inr (Leaf ci)
              \<and> (lstms self ! l) (outs ! l) (hi, ci) = Inr (outs ! Suc l, hs ! l, cs ! l)"
    by auto
  have layer: "\<exists>h_l c_l.
          l < L \<and> l < L' \<and> shape h_l = [B, H] \<and> shape c_l = [B', H']
        \<and> (\<forall>b<B. \<forall>k<H. at h_l [b, k] = at h_in [b, l, k])
        \<and> (\<forall>b<B'. \<forall>k<H'. at c_l [b, k] = at c_in [b, l, k])
        \<and> (lstms self ! l) (outs ! l) (h_l, c_l) = Inr (outs ! Suc l, hs ! l, cs ! l)"
    if l: "l < ?n" for l
  proof -
    from calls[OF l] Th(2) Tc(2) obtain hi ci where
      ghi: "getitem (Leaf Th) (Idx l) = Inr (Leaf hi)"
      and gci: "getitem (Leaf Tc) (Idx l) = Inr (Leaf ci)"
      and call: "(lstms self ! l) (outs ! l) (hi, ci) = Inr (outs ! Suc l, hs ! l, cs ! l)"
      by auto
    from getitem_Idx_Inr[OF ghi] hin(2) have
      lL: "l < L" and shi: "shape hi = [B, H]"
      and hiat: "\<And>idx. valid_idx [B, H] idx \<Longrightarrow> at hi idx = at Th (l # idx)"
      by auto
    from getitem_Idx_Inr[OF gci] cin(2) have
      lL': "l < L'" and sci: "shape ci = [B', H']"
      and ciat: "\<And>idx. valid_idx [B', H'] idx \<Longrightarrow> at ci idx = at Tc (l # idx)"
      by auto
    have "at hi [b, k] = at h_in [b, l, k]" if "b < B" "k < H" for b k
      using hiat[of "[b, k]"] hat[OF lL that] that by simp
    moreover have "at ci [b, k] = at c_in [b, l, k]" if "b < B'" "k < H'" for b k
      using ciat[of "[b, k]"] cat[OF lL' that] that by simp
    ultimately show ?thesis using lL lL' shi sci call by blast
  qed
  from tf_stack_1[OF sh] obtain Bh rh where
    shs: "\<And>v. v \<in> set hs \<Longrightarrow> shape v = Bh # rh"
    and hout: "\<And>l b idx. l < length hs \<Longrightarrow> valid_idx (Bh # rh) (b # idx)
                 \<Longrightarrow> at h_out (b # l # idx) = at (hs ! l) (b # idx)"
    by blast
  from tf_stack_1[OF sc] obtain Bc rc where
    scs: "\<And>v. v \<in> set cs \<Longrightarrow> shape v = Bc # rc"
    and cout: "\<And>l b idx. l < length cs \<Longrightarrow> valid_idx (Bc # rc) (b # idx)
                 \<Longrightarrow> at c_out (b # l # idx) = at (cs ! l) (b # idx)"
    by blast
  have houts: "at h_out [b, l, k] = at (hs ! l) [b, k]"
    if "l < ?n" "valid_idx (shape (hs ! l)) [b, k]" for l b k
  proof -
    from that lens have "shape (hs ! l) = Bh # rh" by (intro shs) simp
    with that lens hout[of l b "[k]"] show ?thesis by simp
  qed
  have couts: "at c_out [b, l, k] = at (cs ! l) [b, k]"
    if "l < ?n" "valid_idx (shape (cs ! l)) [b, k]" for l b k
  proof -
    from that lens have "shape (cs ! l) = Bc # rc" by (intro scs) simp
    with that lens cout[of l b "[k]"] show ?thesis by simp
  qed
  have out: "getitem result STATE_OUT = Inr (Dict [(Str ''h'', Leaf h_out), (Str ''c'', Leaf c_out)])"
    using res by simp
  show ?thesis
    apply (rule exI[of _ B], rule exI[of _ L], rule exI[of _ H])
    apply (rule exI[of _ B'], rule exI[of _ L'], rule exI[of _ H'])
    apply (rule exI[of _ outs], rule exI[of _ hs], rule exI[of _ cs])
    apply (rule exI[of _ h_out], rule exI[of _ c_out])
    using hin(1) cin(1) lens layer out sh sc houts couts by simp
qed

section \<open>Facts about validation and construction\<close>

lemma dim_names_blh [simp]: "dim_names (TfTensorSpec ''b, l, h'' bnd) = [''b'', ''l'', ''h'']"
  by simp

lemma dim_names_btd [simp]: "dim_names (TfTensorSpec ''b, t, d'' bnd) = [''b'', ''t'', ''d'']"
  by simp

lemma dim_names_bd [simp]: "dim_names (TfTensorSpec ''b, d'' bnd) = [''b'', ''d'']"
  by simp

lemma dim_names_bwhc [simp]:
  "dim_names (TfTensorSpec ''b, w, h, c'' bnd) = [''b'', ''w'', ''h'', ''c'']"
  by simp

lemma check_state_spec:
  "check_tensor (TfTensorSpec ''b, l, h'' [(''h'', H), (''l'', L)]) t = None
     \<longleftrightarrow> (\<exists>B. shape t = [B, nat L, nat H] \<and> 0 \<le> L \<and> 0 \<le> H)"
proof (cases "length (shape t) = 3")
  case True
  then obtain B L' H' where sh: "shape t = [B, L', H']"
    by (auto simp: length_Suc_conv numeral_3_eq_3)
  then show ?thesis by (auto simp del: dim_names.simps)
next
  case False
  then show ?thesis by (auto simp del: dim_names.simps)
qed

lemma check_obs3_spec:
  "check_tensor (TfTensorSpec ''b, t, d'' [(''d'', D)]) t = None
     \<longleftrightarrow> (\<exists>b t'. shape t = [b, t', nat D] \<and> 0 \<le> D)"
proof (cases "length (shape t) = 3")
  case True
  then obtain B L' H' where sh: "shape t = [B, L', H']"
    by (auto simp: length_Suc_conv numeral_3_eq_3)
  then show ?thesis by (auto simp del: dim_names.simps)
next
  case False
  then show ?thesis by (auto simp del: dim_names.simps)
qed

lemma check_bd_spec:
  "check_tensor (TfTensorSpec ''b, d'' [(''d'', D)]) t = None
     \<longleftrightarrow> (\<exists>b. shape t = [b, nat D] \<and> 0 \<le> D)"
proof (cases "length (shape t) = 2")
  case True
  then obtain B L' where sh: "shape t = [B, L']"
    by (auto simp: length_Suc_conv numeral_2_eq_2)
  then show ?thesis by (auto simp del: dim_names.simps)
next
  case False
  then show ?thesis by (auto simp del: dim_names.simps)
qed

lemma check_bwhc_spec:
  "check_tensor (TfTensorSpec ''b, w, h, c'' [(''w'', W), (''h'', H), (''c'', C)]) t = None
     \<longleftrightarrow> (\<exists>b. shape t = [b, nat W, nat H, nat C] \<and> 0 \<le> W \<and> 0 \<le> H \<and> 0 \<le> C)"
proof (cases "length (shape t) = 4")
  case True
  then obtain b w h c where sh: "shape t = [b, w, h, c]"
    by (auto simp: length_Suc_conv eval_nat_numeral)
  then show ?thesis by (auto simp del: dim_names.simps)
next
  case False
  then show ?thesis by (auto simp del: dim_names.simps)
qed

lemma validate_TensorSpec_None:
  "validate (TensorSpec ts) x = None \<longleftrightarrow> (\<exists>t. x = Leaf t \<and> check_tensor ts t = None)"
  by (cases x) (auto split: option.splits)

lemma validate_SpecDict_None:
  "validate (SpecDict kss) x = None \<longleftrightarrow> (\<exists>kvs. x = Dict kvs \<and> validate_items kss kvs = None)"
  by (cases x) auto

lemma validate_items_Cons_None:
  "validate_items ((k, s) # kss) kvs = None
     \<longleftrightarrow> (\<exists>x. map_of kvs k = Some x \<and> validate s x = None \<and> validate_items kss kvs = None)"
  by (auto split: option.splits)

lemmas validate_None_simps =
  validate_TensorSpec_None validate_SpecDict_None validate_items_Cons_None

lemma lstm_input_conforms:
  assumes "conforms (TfLSTMEncoder_get_input_specs self) inputs"
  shows "\<exists>kvs obs b t st h_in c_in B B'.
           inputs = Dict kvs \<and> map_of kvs OBS = Some (Leaf obs)
         \<and> shape obs = [b, t, nat (input_dims (config self) ! 0)]
         \<and> map_of kvs STATE_IN = Some (Dict st)
         \<and> map_of st (Str ''h'') = Some (Leaf h_in) \<and> map_of st (Str ''c'') = Some (Leaf c_in)
         \<and> shape h_in = [B, nat (num_lstm_layers (config self)), nat (hidden_dim (config self))]
         \<and> shape c_in = [B', nat (num_lstm_layers (config self)), nat (hidden_dim (config self))]
         \<and> 0 \<le> num_lstm_layers (config self) \<and> 0 \<le> hidden_dim (config self)
         \<and> input_dims (config self) \<noteq> []"
proof -
  from assms have ne: "input_dims (config self) \<noteq> []"
    by (auto simp: conforms_def TfLSTMEncoder_get_input_specs_def tuple_getitem_def
        split: if_splits)
  with assms show ?thesis
    unfolding conforms_def TfLSTMEncoder_get_input_specs_def tuple_getitem_def
    by (simp add: validate_None_simps check_state_spec check_obs3_spec
        del: validate.simps validate_items.simps check_tensor.simps) blast
qed


lemma TfLSTMEncoder_init_Inr:
  assumes "TfLSTMEncoder_init tf cfg = Inr self"
  shows "config self = cfg" "length (lstms self) = nat (num_lstm_layers cfg)"
    "output_dims cfg \<noteq> []" "init_calls self = [TfModel_init]"
    "\<And>l. l < nat (num_lstm_layers cfg) \<Longrightarrow> lstms self ! l = keras_LSTM tf l
        \<lparr>lstm_units = hidden_dim cfg, time_major = (\<not> batch_major cfg),
         lstm_use_bias = use_bias cfg, return_sequences = True, return_state = True\<rparr>"
    "linear self = keras_Dense tf (nat (num_lstm_layers cfg))
        \<lparr>units = output_dims cfg ! 0, activation = None, dense_use_bias = use_bias cfg\<rparr>"
  using assms
  by (auto simp: TfLSTMEncoder_init_def Let_def ebind_eq_Inr tuple_getitem_def split: if_splits)

lemma stack_keeps_shape:
  assumes st: "tf_stack vs 1 = Inr R"
    and sh: "\<And>l. l < length vs \<Longrightarrow> shape (vs ! l) = [B, H]"
  shows "shape R = [B, length vs, H]"
proof -
  from tf_stack_1[OF st] obtain B' rest where
    all: "\<forall>v \<in> set vs. shape v = B' # rest" and ne: "vs \<noteq> []"
    and R: "shape R = B' # length vs # rest"
    by blast
  from ne have "vs ! 0 \<in> set vs" by simp
  with all have "shape (vs ! 0) = B' # rest" by blast
  moreover from ne have "shape (vs ! 0) = [B, H]" by (intro sh) simp
  ultimately show ?thesis using R by simp
qed

section \<open>The stand-in layers honour the contracts\<close>

lemma demo_tf_simps [simp]:
  "keras_LSTM demo_tf = demo_LSTM" "keras_Dense demo_tf = demo_Dense"
  "keras_Flatten demo_tf = demo_Flatten" "TfCNN demo_tf = demo_TfCNN"
  "TfMLP demo_tf = demo_TfMLP" "float32 demo_tf = id"
  by (simp_all add: demo_tf_def)

lemma demo_LSTM_keeps: "lstm_keeps_state_shape (demo_LSTM k args)"
  by (auto simp: lstm_keeps_state_shape_def demo_LSTM_def split: list.splits if_splits)

lemma demo_LSTM_accepts: "lstm_accepts args (demo_LSTM k args)"
  by (auto simp: lstm_accepts_def demo_LSTM_def)

lemma demo_lstm_init: "TfLSTMEncoder_init demo_tf demo_lstm_config = Inr demo_lstm_encoder"
  by (simp add: demo_lstm_encoder_def TfLSTMEncoder_init_def demo_lstm_config_def
      tuple_getitem_def Let_def)

lemma demo_lstm_keeps: "\<forall>layer \<in> set (lstms demo_lstm_encoder). lstm_keeps_state_shape layer"
proof -
  have "lstms demo_lstm_encoder = map (\<lambda>k. demo_LSTM k
            \<lparr>lstm_units = 3, time_major = False,
             lstm_use_bias = True, return_sequences = True, return_state = True\<rparr>) [0..<2]"
    by (simp add: demo_lstm_encoder_def TfLSTMEncoder_init_def demo_lstm_config_def
      tuple_getitem_def Let_def)
  then show ?thesis by (auto simp: demo_LSTM_keeps simp del: upt_Suc)
qed

lemma demo_lstm_conforms:
  "conforms (TfLSTMEncoder_get_input_specs demo_lstm_encoder) demo_lstm_inputs"
  by code_simp

lemma demo_layers_ok: "layers_ok demo_tf"
proof -
  have "dense_layer_ok args (demo_Dense k args)" for k args
    by (auto simp: dense_layer_ok_def demo_Dense_def)
  moreover have "flatten_layer_ok (demo_Flatten k)" for k
    by (auto simp: flatten_layer_ok_def demo_Flatten_def)
  moreover have "cnn_layer_ok args (demo_TfCNN k args)" for k args
    by (auto simp: cnn_layer_ok_def demo_TfCNN_def)
  moreover have "mlp_layer_ok args (demo_TfMLP k args)" for k args
    by (auto simp: mlp_layer_ok_def demo_TfMLP_def)
  ultimately show ?thesis
    by (simp add: layers_ok_def lstm_layer_ok_def demo_LSTM_keeps demo_LSTM_accepts)
qed

lemma demo_cnn_init: "TfCNNEncoder_init demo_tf demo_cnn_config = Inr demo_cnn_encoder"
  by (simp add: demo_cnn_encoder_def TfCNNEncoder_init_def demo_cnn_config_def
      tuple_getitem_def Let_def)

lemma demo_mlp_init: "TfMLPEncoder_init demo_tf demo_mlp_config = Inr demo_mlp_encoder"
  by (simp add: demo_mlp_encoder_def TfMLPEncoder_init_def demo_mlp_config_def
      tuple_getitem_def)

section \<open>When the recurrent encoder's pipeline succeeds\<close>

lemma lstm_acceptsD:
  assumes "lstm_accepts args layer" "shape seq = [d0, d1, d]"
    "shape h = [if time_major args then d1 else d0, nat (lstm_units args)]"
    "shape c = [if time_major args then d1 else d0, nat (lstm_units args)]"
  shows "\<exists>seq' h' c'. layer seq (h, c) = Inr (seq', h', c')
           \<and> shape seq' = [d0, d1, nat (lstm_units args)]"
  using assms unfolding lstm_accepts_def by blast

lemma lstm_keepsD:
  assumes "lstm_keeps_state_shape layer" "layer seq (h, c) = Inr (seq', h', c')"
  shows "shape h' = shape h" "shape c' = shape c"
  using assms unfolding lstm_keeps_state_shape_def by blast+

lemma dense_okD:
  assumes "dense_layer_ok args layer" "shape x = s @ [n]" "s \<noteq> []"
  shows "\<exists>y. layer x = Inr y \<and> shape y = s @ [nat (units args)]"
  using assms unfolding dense_layer_ok_def by blast

lemma tf_stack_succeeds:
  assumes "vs \<noteq> []" "\<And>l. l < length vs \<Longrightarrow> shape (vs ! l) = [B, H]"
  shows "\<exists>R. tf_stack vs 1 = Inr R \<and> shape R = [B, length vs, H]"
proof -
  from assms(1) obtain v vs' where vs: "vs = v # vs'" by (cases vs) auto
  have "shape u = [B, H]" if "u \<in> set vs" for u
    using that assms(2) by (auto simp: in_set_conv_nth)
  then have "shape v = [B, H]" "list_all (\<lambda>u. shape u = shape v) vs'"
    using vs by (auto simp: list_all_iff)
  then show ?thesis using vs by (simp add: tf_stack_def)
qed

lemma tf_transpose_102_shape:
  assumes "shape t = [B, L, H]"
  shows "\<exists>T. tf_transpose (Leaf t) [1, 0, 2] = Inr T \<and> shape T = [L, B, H]"
  using tf_transpose_102[OF assms] by blast

lemma getitem_Idx_shape:
  assumes "shape t = d # ds" "i < d"
  shows "\<exists>S. getitem (Leaf t) (Idx i) = Inr (Leaf S) \<and> shape S = ds"
  using assms by simp

lemma lstm_loop_succeeds:
  assumes states: "states_in = Dict [(Str ''h'', Leaf Th), (Str ''c'', Leaf Tc)]"
    and Th: "shape Th = [L, b, H]"
    and Tc: "shape Tc = [L, b, H]"
    and H: "H = nat (lstm_units args)"
    and acc: "\<forall>layer \<in> set layers. lstm_accepts args layer"
    and out: "shape out = [d0, d1, d]"
    and batch: "b = (if time_major args then d1 else d0)"
    and bound: "i + length layers \<le> L"
  shows "\<exists>out' hs cs d'. lstm_loop layers i states_in out hs0 cs0 = Inr (out', hs, cs)
           \<and> shape out' = [d0, d1, d']"
  using acc out bound
proof (induction layers arbitrary: i out d hs0 cs0)
  case Nil
  then show ?case by simp
next
  case (Cons layer layers)
  from Cons.prems(3) have i: "i < L" by simp
  from getitem_Idx_shape[OF Th i] obtain hi where
    hi: "getitem (Leaf Th) (Idx i) = Inr (Leaf hi)" "shape hi = [b, nat (lstm_units args)]"
    unfolding H by blast
  from getitem_Idx_shape[OF Tc i] obtain ci where
    ci: "getitem (Leaf Tc) (Idx i) = Inr (Leaf ci)" "shape ci = [b, nat (lstm_units args)]"
    unfolding H by blast
  from Cons.prems(1) have a: "lstm_accepts args layer" by simp
  have hi': "shape hi = [if time_major args then d1 else d0, nat (lstm_units args)]"
    and ci': "shape ci = [if time_major args then d1 else d0, nat (lstm_units args)]"
    using hi(2) ci(2) batch by simp_all
  from lstm_acceptsD[OF a Cons.prems(2) hi' ci'] obtain seq' h' c' where
    call: "layer out (hi, ci) = Inr (seq', h', c')"
    and seq': "shape seq' = [d0, d1, nat (lstm_units args)]"
    by blast
  have "\<exists>out' hs cs d'.
          lstm_loop layers (Suc i) states_in seq' (hs0 @ [h']) (cs0 @ [c']) = Inr (out', hs, cs)
        \<and> shape out' = [d0, d1, d']"
    using Cons.prems by (intro Cons.IH[OF _ seq']) simp_all
  then show ?case
    using states hi(1) ci(1) call by (simp add: tensor_of_def)
qed

lemma lstm_forward_succeeds:
  assumes init: "TfLSTMEncoder_init tf cfg = Inr self"
    and ok: "layers_ok tf"
    and obs: "getitem inputs OBS = Inr (Leaf obs)" "shape obs = [d0, d1, d]"
    and st: "getitem inputs STATE_IN
               = Inr (Dict [(Str ''h'', Leaf h_in), (Str ''c'', Leaf c_in)])"
    and h: "shape h_in = [b, nat (num_lstm_layers cfg), nat (hidden_dim cfg)]"
    and c: "shape c_in = [b, nat (num_lstm_layers cfg), nat (hidden_dim cfg)]"
    and batch: "b = obs_batch cfg obs"
    and n: "0 < num_lstm_layers cfg"
  shows "\<exists>out h_out c_out.
           TfLSTMEncoder__forward tf self inputs
             = Inr (Dict [(ENCODER_OUT, Leaf out),
                          (STATE_OUT, Dict [(Str ''h'', Leaf h_out), (Str ''c'', Leaf c_out)])])
         \<and> shape out = [d0, d1, nat (output_dims cfg ! 0)]
         \<and> shape h_out = shape h_in \<and> shape c_out = shape c_in"
proof -
  note i = TfLSTMEncoder_init_Inr[OF init]
  let ?n = "nat (num_lstm_layers cfg)" and ?H = "nat (hidden_dim cfg)"
  let ?args = "\<lparr>lstm_units = hidden_dim cfg, time_major = (\<not> batch_major cfg),
         lstm_use_bias = use_bias cfg, return_sequences = True, return_state = True\<rparr>"
  let ?x = "Tensor (shape obs) (map (float32 tf) (elems obs))"
  have lok: "lstm_layer_ok ?args layer" if "layer \<in> set (lstms self)" for layer
  proof -
    from that obtain l where "l < length (lstms self)" "layer = lstms self ! l"
      by (auto simp: in_set_conv_nth)
    with i(2,5) ok show ?thesis by (simp add: layers_ok_def)
  qed
  from tf_transpose_102_shape[OF h] obtain Th where
    Th: "tf_transpose (Leaf h_in) [1, 0, 2] = Inr Th" "shape Th = [?n, b, ?H]" by blast
  from tf_transpose_102_shape[OF c] obtain Tc where
    Tc: "tf_transpose (Leaf c_in) [1, 0, 2] = Inr Tc" "shape Tc = [?n, b, ?H]" by blast
  let ?states_in = "Dict [(Str ''h'', Leaf Th), (Str ''c'', Leaf Tc)]"
  have ms: "map_structure (\<lambda>s. tf_transpose s [1, 0, 2])
              (Dict [(Str ''h'', Leaf h_in), (Str ''c'', Leaf c_in)]) = Inr ?states_in"
    using Th(1) Tc(1) by simp
  have b: "b = (if time_major ?args then d1 else d0)"
    using batch obs(2) by (simp add: obs_batch_def)
  have acc: "\<forall>layer \<in> set (lstms self). lstm_accepts ?args layer"
    using lok by (simp add: lstm_layer_ok_def)
  have xs: "shape ?x = [d0, d1, d]" using obs(2) by simp
  have Hn: "?H = nat (lstm_units ?args)" by simp
  have bound: "0 + length (lstms self) \<le> ?n" using i(2) by simp
  have "\<exists>out' hs cs d'. lstm_loop (lstms self) 0 ?states_in ?x [] [] = Inr (out', hs, cs)
           \<and> shape out' = [d0, d1, d']"
    by (rule lstm_loop_succeeds[OF refl Th(2) Tc(2) Hn acc xs b bound])
  then obtain out' hs cs d' where
    loop: "lstm_loop (lstms self) 0 ?states_in ?x [] [] = Inr (out', hs, cs)"
    and out': "shape out' = [d0, d1, d']"
    by blast
  from lstm_loop_calls[OF loop] obtain outs where
    lens: "length hs = length (lstms self)" "length cs = length (lstms self)"
    and calls: "\<forall>l<length (lstms self). \<exists>sh sc hi ci.
                getitem ?states_in (Str ''h'') = Inr sh \<and> getitem sh (Idx (0 + l)) = Inr (Leaf hi)
              \<and> getitem ?states_in (Str ''c'') = Inr sc \<and> getitem sc (Idx (0 + l)) = Inr (Leaf ci)
              \<and> (lstms self ! l) (outs ! l) (hi, ci) = Inr (outs ! Suc l, hs ! l, cs ! l)"
    by auto
  have shapes: "shape (hs ! l) = [b, ?H] \<and> shape (cs ! l) = [b, ?H]"
    if l: "l < length (lstms self)" for l
  proof -
    from calls l obtain hi ci where
      ghi: "getitem (Leaf Th) (Idx l) = Inr (Leaf hi)"
      and gci: "getitem (Leaf Tc) (Idx l) = Inr (Leaf ci)"
      and call: "(lstms self ! l) (outs ! l) (hi, ci) = Inr (outs ! Suc l, hs ! l, cs ! l)"
      by auto
    from getitem_Idx_Inr[OF ghi] Th(2) have shi: "shape hi = [b, ?H]" by auto
    from getitem_Idx_Inr[OF gci] Tc(2) have sci: "shape ci = [b, ?H]" by auto
    from l lok have "lstm_keeps_state_shape (lstms self ! l)"
      by (simp add: lstm_layer_ok_def)
    from lstm_keepsD[OF this call] shi sci show ?thesis by simp
  qed
  have ne: "hs \<noteq> []" "cs \<noteq> []" using lens i(2) n by auto
  from tf_stack_succeeds[OF ne(1), of b ?H] shapes lens obtain h_out where
    h_out: "tf_stack hs 1 = Inr h_out" "shape h_out = [b, length hs, ?H]" by auto
  from tf_stack_succeeds[OF ne(2), of b ?H] shapes lens obtain c_out where
    c_out: "tf_stack cs 1 = Inr c_out" "shape c_out = [b, length cs, ?H]" by auto
  have dok: "dense_layer_ok \<lparr>units = output_dims cfg ! 0, activation = None,
          dense_use_bias = use_bias cfg\<rparr> (linear self)"
    using ok i(6) by (simp add: layers_ok_def)
  have o2: "shape out' = [d0, d1] @ [d']" using out' by simp
  from dense_okD[OF dok o2] obtain y where
    y: "linear self out' = Inr y" "shape y = [d0, d1, nat (output_dims cfg ! 0)]"
    by auto
  have "TfLSTMEncoder__forward tf self inputs
          = Inr (Dict [(ENCODER_OUT, Leaf y),
                       (STATE_OUT, Dict [(Str ''h'', Leaf h_out), (Str ''c'', Leaf c_out)])])"
    unfolding TfLSTMEncoder__forward_def
    using obs(1) st ms loop y(1) h_out(1) c_out(1) by (simp add: tf_cast_def)
  moreover have "shape h_out = shape h_in" "shape c_out = shape c_in"
    using h_out(2) c_out(2) lens i(2) h c by simp_all
  ultimately show ?thesis using y(2) by auto
qed

section \<open>The contract around the pipelines\<close>

lemma take_3_nth:
  assumes "3 \<le> length xs"
  shows "take 3 xs = [xs ! 0, xs ! 1, xs ! 2]"
proof -
  from assms obtain a xs1 where 1: "xs = a # xs1" by (cases xs) auto
  with assms obtain b xs2 where 2: "xs1 = b # xs2" by (cases xs1) auto
  with assms 1 obtain c xs3 where 3: "xs2 = c # xs3" by (cases xs2) auto
  show ?thesis by (simp add: 1 2 3 numeral_3_eq_3)
qed

lemma cnn_okD:
  assumes "cnn_layer_ok args layer" "shape x = [b, w, h, c]"
    "take 3 (cnn_input_dims args) = [int w, int h, int c]"
  shows "\<exists>y w' h' c'. layer x = Inr y \<and> shape y = [b, w', h', c']"
  using assms unfolding cnn_layer_ok_def by blast

lemma flatten_okD:
  assumes "flatten_layer_ok layer" "shape x = b # rest"
  shows "\<exists>y. layer x = Inr y \<and> shape y = [b, prod_list rest]"
  using assms unfolding flatten_layer_ok_def by blast

lemma mlp_okD:
  assumes "mlp_layer_ok args layer" "shape x = [b, n]" "int n = mlp_input_dim args"
  shows "\<exists>y. layer x = Inr y \<and> shape y = [b, nat (mlp_output_dim args)]"
  using assms unfolding mlp_layer_ok_def by blast

lemma TfCNNEncoder_init_Inr:
  assumes "TfCNNEncoder_init tf cfg = Inr self"
  shows "config self = cfg" "output_dims cfg \<noteq> []"
    "net self = keras_Sequential
       [TfCNN tf 0 \<lparr>cnn_input_dims = input_dims cfg,
             cnn_cnn_filter_specifiers = cnn_filter_specifiers cfg,
             cnn_cnn_activation = cnn_activation cfg,
             cnn_cnn_use_layernorm = cnn_use_layernorm cfg,
             cnn_use_bias = use_bias cfg\<rparr>,
        keras_Flatten tf 1,
        keras_Dense tf 2 \<lparr>units = output_dims cfg ! 0,
             activation = get_activation_fn tf (output_activation cfg) ''tf2'',
             dense_use_bias = True\<rparr>]"
  using assms
  by (auto simp: TfCNNEncoder_init_def Let_def ebind_eq_Inr tuple_getitem_def split: if_splits)

lemma TfMLPEncoder_init_Inr:
  assumes "TfMLPEncoder_init tf cfg = Inr self"
  shows "config self = cfg" "output_dims cfg \<noteq> []" "input_dims cfg \<noteq> []"
    "net self = TfMLP tf 0
            \<lparr>mlp_input_dim = input_dims cfg ! 0,
             mlp_hidden_layer_dims = hidden_layer_dims cfg,
             mlp_hidden_layer_activation = hidden_layer_activation cfg,
             mlp_hidden_layer_use_layernorm = hidden_layer_use_layernorm cfg,
             mlp_output_dim = output_dims cfg ! 0,
             mlp_output_activation = output_activation cfg,
             mlp_use_bias = use_bias cfg\<rparr>"
  using assms
  by (auto simp: TfMLPEncoder_init_def ebind_eq_Inr tuple_getitem_def split: if_splits)

lemma cnn_input_conforms:
  assumes "conforms (TfCNNEncoder_get_input_specs self) inputs"
  shows "\<exists>kvs x b s q.
           inputs = Dict kvs \<and> map_of kvs OBS = Some (Leaf x)
         \<and> shape x = [b, nat (input_dims (config self) ! 0), nat (input_dims (config self) ! 1),
                      nat (input_dims (config self) ! 2)]
         \<and> 0 \<le> input_dims (config self) ! 0 \<and> 0 \<le> input_dims (config self) ! 1
         \<and> 0 \<le> input_dims (config self) ! 2 \<and> 3 \<le> length (input_dims (config self))
         \<and> map_of kvs STATE_IN = Some s \<and> map_of kvs SEQ_LENS = Some q"
proof -
  from assms have len: "3 \<le> length (input_dims (config self))"
    by (auto simp: conforms_def TfCNNEncoder_get_input_specs_def tuple_getitem_def
        split: if_splits)
  then have "input_dims (config self) \<noteq> []" by auto
  with assms len show ?thesis
    unfolding conforms_def TfCNNEncoder_get_input_specs_def tuple_getitem_def
    by (simp add: validate_None_simps check_bwhc_spec
        del: validate.simps(2,3) validate_items.simps(2) check_tensor.simps) blast
qed

lemma mlp_input_conforms:
  assumes "conforms (TfMLPEncoder_get_input_specs self) inputs"
  shows "\<exists>kvs x b.
           inputs = Dict kvs \<and> map_of kvs OBS = Some (Leaf x)
         \<and> shape x = [b, nat (input_dims (config self) ! 0)]
         \<and> 0 \<le> input_dims (config self) ! 0 \<and> input_dims (config self) \<noteq> []"
proof -
  from assms have ne: "input_dims (config self) \<noteq> []"
    by (auto simp: conforms_def TfMLPEncoder_get_input_specs_def tuple_getitem_def
        split: if_splits)
  with assms show ?thesis
    unfolding conforms_def TfMLPEncoder_get_input_specs_def tuple_getitem_def
    by (simp add: validate_None_simps check_bd_spec
        del: validate.simps(2,3) validate_items.simps(2) check_tensor.simps) blast
qed

lemma cnn_forward_succeeds:
  assumes init: "TfCNNEncoder_init tf cfg = Inr self"
    and ok: "layers_ok tf"
    and conf: "conforms (TfCNNEncoder_get_input_specs self) inputs"
  shows "\<exists>x b y s. getitem inputs OBS = Inr (Leaf x) \<and> shape x ! 0 = b
           \<and> getitem inputs STATE_IN = Inr s
           \<and> TfCNNEncoder__forward self inputs = Inr (Dict [(ENCODER_OUT, Leaf y), (STATE_OUT, s)])
           \<and> shape y = [b, nat (output_dims cfg ! 0)]"
proof -
  note i = TfCNNEncoder_init_Inr[OF init]
  let ?w = "input_dims cfg ! 0" and ?h = "input_dims cfg ! 1" and ?c = "input_dims cfg ! 2"
  from cnn_input_conforms[OF conf] i(1) obtain kvs x b s where
    inputs: "inputs = Dict kvs" and x: "map_of kvs OBS = Some (Leaf x)"
    and sx: "shape x = [b, nat ?w, nat ?h, nat ?c]"
    and nn: "0 \<le> ?w" "0 \<le> ?h" "0 \<le> ?c" and len: "3 \<le> length (input_dims cfg)"
    and s: "map_of kvs STATE_IN = Some s"
    by auto
  let ?cargs = "\<lparr>cnn_input_dims = input_dims cfg,
             cnn_cnn_filter_specifiers = cnn_filter_specifiers cfg,
             cnn_cnn_activation = cnn_activation cfg,
             cnn_cnn_use_layernorm = cnn_use_layernorm cfg,
             cnn_use_bias = use_bias cfg\<rparr>"
  let ?dargs = "\<lparr>units = output_dims cfg ! 0,
             activation = get_activation_fn tf (output_activation cfg) ''tf2'',
             dense_use_bias = True\<rparr>"
  have t3: "take 3 (cnn_input_dims ?cargs) = [int (nat ?w), int (nat ?h), int (nat ?c)]"
    using take_3_nth[OF len] nn by simp
  have cok: "cnn_layer_ok ?cargs (TfCNN tf 0 ?cargs)"
    and fok: "flatten_layer_ok (keras_Flatten tf 1)"
    and dok: "dense_layer_ok ?dargs (keras_Dense tf 2 ?dargs)"
    using ok by (simp_all add: layers_ok_def)
  from cnn_okD[OF cok sx t3] obtain y1 w' h' c' where
    y1: "TfCNN tf 0 ?cargs x = Inr y1" "shape y1 = [b, w', h', c']" by blast
  from flatten_okD[OF fok y1(2)] obtain y2 where
    y2: "keras_Flatten tf 1 y1 = Inr y2" "shape y2 = [b, prod_list [w', h', c']]" by blast
  have "shape y2 = [b] @ [prod_list [w', h', c']]" using y2(2) by simp
  from dense_okD[OF dok this] obtain y where
    y: "keras_Dense tf 2 ?dargs y2 = Inr y" "shape y = [b, nat (output_dims cfg ! 0)]"
    by auto
  have "net self x = Inr y"
    unfolding i(3) using y1(1) y2(1) y(1) by simp
  then have "TfCNNEncoder__forward self inputs = Inr (Dict [(ENCODER_OUT, Leaf y), (STATE_OUT, s)])"
    using inputs x s by (simp add: TfCNNEncoder__forward_def tensor_of_def)
  with inputs x s sx y(2) show ?thesis by simp
qed

lemma mlp_forward_succeeds:
  assumes init: "TfMLPEncoder_init tf cfg = Inr self"
    and ok: "layers_ok tf"
    and conf: "conforms (TfMLPEncoder_get_input_specs self) inputs"
  shows "\<exists>x b y. getitem inputs OBS = Inr (Leaf x) \<and> shape x ! 0 = b
           \<and> TfMLPEncoder__forward self inputs = Inr (Dict [(ENCODER_OUT, Leaf y), (STATE_OUT, NoneV)])
           \<and> shape y = [b, nat (output_dims cfg ! 0)]"
proof -
  note i = TfMLPEncoder_init_Inr[OF init]
  from mlp_input_conforms[OF conf] i(1) obtain kvs x b where
    inputs: "inputs = Dict kvs" and x: "map_of kvs OBS = Some (Leaf x)"
    and sx: "shape x = [b, nat (input_dims cfg ! 0)]" and nn: "0 \<le> input_dims cfg ! 0"
    by auto
  let ?args = "\<lparr>mlp_input_dim = input_dims cfg ! 0,
             mlp_hidden_layer_dims = hidden_layer_dims cfg,
             mlp_hidden_layer_activation = hidden_layer_activation cfg,
             mlp_hidden_layer_use_layernorm = hidden_layer_use_layernorm cfg,
             mlp_output_dim = output_dims cfg ! 0,
             mlp_output_activation = output_activation cfg,
             mlp_use_bias = use_bias cfg\<rparr>"
  have mok: "mlp_layer_ok ?args (TfMLP tf 0 ?args)"
    using ok by (simp add: layers_ok_def)
  have "int (nat (input_dims cfg ! 0)) = mlp_input_dim ?args" using nn by simp
  from mlp_okD[OF mok sx this] obtain y where
    y: "TfMLP tf 0 ?args x = Inr y" "shape y = [b, nat (output_dims cfg ! 0)]" by auto
  have "TfMLPEncoder__forward self inputs = Inr (Dict [(ENCODER_OUT, Leaf y), (STATE_OUT, NoneV)])"
    using inputs x y(1) i(4) by (simp add: TfMLPEncoder__forward_def tensor_of_def)
  with inputs x sx y(2) show ?thesis by simp
qed

lemma Encoder_forward_Inr:
  assumes "validate s inputs = None" "f inputs = Inr result" "validate so result = None"
  shows "Encoder_forward (Inr s) f (Inr so) inputs = Inr result"
  using assms by (simp add: Encoder_forward_def)

lemma Encoder_forward_input_violation:
  assumes "validate s inputs = Some (path, v)"
  shows "Encoder_forward (Inr s) f gos inputs = Inl (InputSpecViolation path v)"
  using assms by (simp add: Encoder_forward_def)

lemma Encoder_forward_output_violation:
  assumes "validate s inputs = None" "f inputs = Inr result" "validate so result = Some (path, v)"
  shows "Encoder_forward (Inr s) f (Inr so) inputs = Inl (OutputSpecViolation path v)"
  using assms by (simp add: Encoder_forward_def)

lemma validate_items_append:
  "validate_items (pre @ post) kvs
     = (case validate_items pre kvs of None \<Rightarrow> validate_items post kvs | Some e \<Rightarrow> Some e)"
  by (induction pre) (auto split: option.splits)

lemma validate_missing_key:
  assumes "validate_items pre kvs = None" "map_of kvs k = None"
  shows "validate (SpecDict (pre @ (k, sp) # post)) (Dict kvs) = Some ([k], MissingKey)"
  using assms by (simp add: validate_items_append)

lemma validate_tensor_mismatch:
  assumes "validate_items pre kvs = None" "map_of kvs k = Some (Leaf t)"
    "check_tensor ts t = Some v"
  shows "validate (SpecDict (pre @ (k, TensorSpec ts) # post)) (Dict kvs) = Some ([k], v)"
  using assms by (simp add: validate_items_append)

lemma conforms_Inr: "conforms specs x \<longleftrightarrow> (\<exists>s. specs = Inr s \<and> validate s x = None)"
  by (cases specs) (simp_all add: conforms_def)

lemma cnn_output_conforms:
  assumes "output_dims (config self) \<noteq> []" "0 \<le> output_dims (config self) ! 0"
    "shape y = [b, nat (output_dims (config self) ! 0)]"
  shows "conforms (TfCNNEncoder_get_output_specs self)
           (Dict [(ENCODER_OUT, Leaf y), (STATE_OUT, s)])"
  using assms unfolding conforms_def TfCNNEncoder_get_output_specs_def tuple_getitem_def
  by (simp add: validate_None_simps check_bd_spec
      del: validate.simps(2,3) validate_items.simps(2) check_tensor.simps)

lemma mlp_output_conforms:
  assumes "output_dims (config self) \<noteq> []" "0 \<le> output_dims (config self) ! 0"
    "shape y = [b, nat (output_dims (config self) ! 0)]"
  shows "conforms (TfMLPEncoder_get_output_specs self)
           (Dict [(ENCODER_OUT, Leaf y), (STATE_OUT, s)])"
  using assms unfolding conforms_def TfMLPEncoder_get_output_specs_def tuple_getitem_def
  by (simp add: validate_None_simps check_bd_spec
      del: validate.simps(2,3) validate_items.simps(2) check_tensor.simps)

lemma lstm_output_conforms:
  assumes "output_dims (config self) \<noteq> []" "0 \<le> output_dims (config self) ! 0"
    "0 \<le> num_lstm_layers (config self)" "0 \<le> hidden_dim (config self)"
    "shape y = [d0, d1, nat (output_dims (config self) ! 0)]"
    "shape h = [b, nat (num_lstm_layers (config self)), nat (hidden_dim (config self))]"
    "shape c = [b', nat (num_lstm_layers (config self)), nat (hidden_dim (config self))]"
  shows "conforms (TfLSTMEncoder_get_output_specs self)
           (Dict [(ENCODER_OUT, Leaf y),
                  (STATE_OUT, Dict [(Str ''h'', Leaf h), (Str ''c'', Leaf c)])])"
  using assms unfolding conforms_def TfLSTMEncoder_get_output_specs_def tuple_getitem_def
  by (simp add: validate_None_simps check_obs3_spec check_state_spec
      del: validate.simps(2,3) validate_items.simps(2) check_tensor.simps)

lemma forward_of_conforming:
  assumes "conforms gis inputs" "f inputs = Inr result" "conforms gos result"
  shows "Encoder_forward gis f gos inputs = Inr result"
  using assms by (auto simp: conforms_Inr Encoder_forward_def)

lemma cnn_forward_contract:
  assumes init: "TfCNNEncoder_init tf cfg = Inr self" and ok: "layers_ok tf"
    and od: "0 \<le> output_dims cfg ! 0"
    and conf: "conforms (TfCNNEncoder_get_input_specs self) inputs"
  shows "\<exists>result. TfCNNEncoder_forward self inputs = Inr result
           \<and> conforms (TfCNNEncoder_get_output_specs self) result"
proof -
  note i = TfCNNEncoder_init_Inr[OF init]
  from cnn_forward_succeeds[OF init ok conf] obtain b y s where
    f: "TfCNNEncoder__forward self inputs = Inr (Dict [(ENCODER_OUT, Leaf y), (STATE_OUT, s)])"
    and y: "shape y = [b, nat (output_dims cfg ! 0)]"
    by blast
  have c: "conforms (TfCNNEncoder_get_output_specs self)
             (Dict [(ENCODER_OUT, Leaf y), (STATE_OUT, s)])"
    using i(1,2) od y by (intro cnn_output_conforms) simp_all
  from forward_of_conforming[where f = "TfCNNEncoder__forward self", OF conf f c] c
  show ?thesis by (auto simp: TfCNNEncoder_forward_def)
qed

lemma mlp_forward_contract:
  assumes init: "TfMLPEncoder_init tf cfg = Inr self" and ok: "layers_ok tf"
    and od: "0 \<le> output_dims cfg ! 0"
    and conf: "conforms (TfMLPEncoder_get_input_specs self) inputs"
  shows "\<exists>result. TfMLPEncoder_forward self inputs = Inr result
           \<and> conforms (TfMLPEncoder_get_output_specs self) result"
proof -
  note i = TfMLPEncoder_init_Inr[OF init]
  from mlp_forward_succeeds[OF init ok conf] obtain b y where
    f: "TfMLPEncoder__forward self inputs = Inr (Dict [(ENCODER_OUT, Leaf y), (STATE_OUT, NoneV)])"
    and y: "shape y = [b, nat (output_dims cfg ! 0)]"
    by blast
  have c: "conforms (TfMLPEncoder_get_output_specs self)
             (Dict [(ENCODER_OUT, Leaf y), (STATE_OUT, NoneV)])"
    using i(1,2) od y by (intro mlp_output_conforms) simp_all
  from forward_of_conforming[where f = "TfMLPEncoder__forward self", OF conf f c] c
  show ?thesis by (auto simp: TfMLPEncoder_forward_def)
qed

lemma lstm_forward_contract:
  assumes init: "TfLSTMEncoder_init tf cfg = Inr self" and ok: "layers_ok tf"
    and od: "0 \<le> output_dims cfg ! 0" and n: "0 < num_lstm_layers cfg"
    and conf: "conforms (TfLSTMEncoder_get_input_specs self) inputs"
    and obs: "getitem inputs OBS = Inr (Leaf obs)"
    and st: "getitem inputs STATE_IN
               = Inr (Dict [(Str ''h'', Leaf h_in), (Str ''c'', Leaf c_in)])"
    and bh: "shape h_in ! 0 = obs_batch cfg obs" and bc: "shape c_in ! 0 = obs_batch cfg obs"
  shows "\<exists>result. TfLSTMEncoder_forward tf self inputs = Inr result
           \<and> conforms (TfLSTMEncoder_get_output_specs self) result"
proof -
  note i = TfLSTMEncoder_init_Inr[OF init]
  let ?L = "nat (num_lstm_layers cfg)" and ?H = "nat (hidden_dim cfg)"
  from lstm_input_conforms[OF conf] i(1) obs st obtain d0 d1 B B' where
    so: "shape obs = [d0, d1, nat (input_dims cfg ! 0)]"
    and sh: "shape h_in = [B, ?L, ?H]" and sc: "shape c_in = [B', ?L, ?H]"
    and nn: "0 \<le> num_lstm_layers cfg" "0 \<le> hidden_dim cfg"
    by auto
  let ?b = "obs_batch cfg obs"
  have h: "shape h_in = [?b, ?L, ?H]" and c: "shape c_in = [?b, ?L, ?H]"
    using sh sc bh bc by simp_all
  from lstm_forward_succeeds[OF init ok obs so st h c refl n] obtain out h_out c_out where
    f: "TfLSTMEncoder__forward tf self inputs
             = Inr (Dict [(ENCODER_OUT, Leaf out),
                          (STATE_OUT, Dict [(Str ''h'', Leaf h_out), (Str ''c'', Leaf c_out)])])"
    and s: "shape out = [d0, d1, nat (output_dims cfg ! 0)]"
      "shape h_out = shape h_in" "shape c_out = shape c_in"
    by blast
  have cf: "conforms (TfLSTMEncoder_get_output_specs self)
             (Dict [(ENCODER_OUT, Leaf out),
                    (STATE_OUT, Dict [(Str ''h'', Leaf h_out), (Str ''c'', Leaf c_out)])])"
    using i(1,3) od nn s h c by (intro lstm_output_conforms) simp_all
  from forward_of_conforming[where f = "TfLSTMEncoder__forward tf self", OF conf f cf] cf
  show ?thesis by (auto simp: TfLSTMEncoder_forward_def)
qed

lemma cnn_scenario_accepts:
  assumes init: "TfCNNEncoder_init tf cfg = Inr self" and ok: "layers_ok tf"
    and dims: "input_dims cfg = [4, 4, 3]" "output_dims cfg = [8]"
    and x: "shape x = [2, 4, 4, 3]"
  shows "\<exists>y. TfCNNEncoder_forward self (Dict [(OBS, Leaf x), (STATE_IN, s), (SEQ_LENS, q)])
               = Inr (Dict [(ENCODER_OUT, Leaf y), (STATE_OUT, s)])
           \<and> shape y = [2, 8]"
proof -
  note i = TfCNNEncoder_init_Inr[OF init]
  let ?inputs = "Dict [(OBS, Leaf x), (STATE_IN, s), (SEQ_LENS, q)]"
  have conf: "conforms (TfCNNEncoder_get_input_specs self) ?inputs"
    unfolding conforms_def TfCNNEncoder_get_input_specs_def tuple_getitem_def
    using i(1) dims x
    by (simp add: validate_None_simps check_bwhc_spec
        del: validate.simps(2,3) validate_items.simps(2) check_tensor.simps)
  from cnn_forward_succeeds[OF init ok conf] dims x obtain y where
    f: "TfCNNEncoder__forward self ?inputs = Inr (Dict [(ENCODER_OUT, Leaf y), (STATE_OUT, s)])"
    and y: "shape y = [2, 8]"
    by auto
  have c: "conforms (TfCNNEncoder_get_output_specs self)
             (Dict [(ENCODER_OUT, Leaf y), (STATE_OUT, s)])"
    using i(1) dims y by (intro cnn_output_conforms[where b = 2]) simp_all
  from forward_of_conforming[where f = "TfCNNEncoder__forward self", OF conf f c] y
  show ?thesis by (auto simp: TfCNNEncoder_forward_def)
qed

lemma cnn_scenario_rejects:
  assumes init: "TfCNNEncoder_init tf cfg = Inr self"
    and dims: "input_dims cfg = [4, 4, 3]"
    and x: "shape x = [2, 5, 4, 3]"
  shows "TfCNNEncoder_forward self (Dict [(OBS, Leaf x), (STATE_IN, s), (SEQ_LENS, q)])
           = Inl (InputSpecViolation [OBS] (DimMismatch ''w'' 4 5))"
  using TfCNNEncoder_init_Inr(1)[OF init] dims x
  by (simp add: TfCNNEncoder_forward_def Encoder_forward_def TfCNNEncoder_get_input_specs_def
      tuple_getitem_def)

lemma Encoder_forward_conforms:
  assumes "Encoder_forward gis f gos inputs = Inr result"
  shows "conforms gos result"
proof -
  from assms obtain si where gis: "gis = Inr si"
    by (cases gis) (simp_all add: Encoder_forward_def)
  from assms gis have vi: "validate si inputs = None"
    by (cases "validate si inputs") (auto simp: Encoder_forward_def)
  from assms gis vi obtain so where gos: "gos = Inr so"
    by (cases gos) (auto simp: Encoder_forward_def ebind_eq_Inr)
  from assms gis vi gos obtain x where
    x: "(case validate so x of None \<Rightarrow> Inr x
         | Some (path, v) \<Rightarrow> Inl (OutputSpecViolation path v)) = Inr result"
    by (auto simp: Encoder_forward_def ebind_eq_Inr)
  then have "validate so x = None \<and> x = result"
    by (cases "validate so x") auto
  with gos show ?thesis by (auto simp: conforms_def)
qed

lemma contract_encoder_conforms:
  assumes "contract_encoder e" "forward e inputs = Inr result"
  shows "conforms (get_output_specs e) result"
proof -
  from assms(1) obtain gis f where "forward e = Encoder_forward gis f (get_output_specs e)"
    unfolding contract_encoder_def by blast
  with assms(2) show ?thesis by (auto intro: Encoder_forward_conforms)
qed

lemma contract_encoder_cnn: "contract_encoder (TfCNNEncoder_as_Encoder self)"
  unfolding contract_encoder_def TfCNNEncoder_as_Encoder_def TfCNNEncoder_forward_def
  by auto

lemma demo_cnn_init2: "TfCNNEncoder_init demo_tf demo_cnn_config2 = Inr demo_cnn_encoder2"
  by (simp add: demo_cnn_encoder2_def TfCNNEncoder_init_def demo_cnn_config2_def
      tuple_getitem_def Let_def)

section \<open>The recurrent encoder's state layout\<close>

text \<open>
  C1. When \<open>_forward\<close> of the recurrent encoder returns on an input whose state-in holds
  the batch-first tensors \<open>h_in\<close> and \<open>c_in\<close>, both have rank 3, and there are the sequence
  outputs \<open>outs\<close> and the per-layer states \<open>hs\<close>, \<open>cs\<close> of the layer calls such that: layer
  \<open>l\<close> was called on the previous sequence output and on its own slice of the state
  (\<open>h_l[b, k] = h_in[b, l, k]\<close>, \<open>c_l[b, k] = c_in[b, l, k]\<close>) and returned \<open>hs[l]\<close>, \<open>cs[l]\<close>;
  and the state-out tensors satisfy \<open>h_out[b, l, k] = hs[l][b, k]\<close> and
  \<open>c_out[b, l, k] = cs[l][b, k]\<close>: the round trip permutes no index.
\<close>

theorem lstm_state_layout_round_trip:
  assumes fwd: "TfLSTMEncoder__forward tf self inputs = Inr result"
    and st: "getitem inputs STATE_IN = Inr state_in"
    and h: "getitem state_in (Str ''h'') = Inr (Leaf h_in)"
    and c: "getitem state_in (Str ''c'') = Inr (Leaf c_in)"
  shows "\<exists>B L H B' L' H' outs hs cs h_out c_out.
      shape h_in = [B, L, H] \<and> shape c_in = [B', L', H']
    \<and> length outs = Suc (length (lstms self))
    \<and> length hs = length (lstms self) \<and> length cs = length (lstms self)
    \<and> (\<forall>l<length (lstms self). \<exists>h_l c_l.
          l < L \<and> l < L' \<and> shape h_l = [B, H] \<and> shape c_l = [B', H']
        \<and> (\<forall>b<B. \<forall>k<H. at h_l [b, k] = at h_in [b, l, k])
        \<and> (\<forall>b<B'. \<forall>k<H'. at c_l [b, k] = at c_in [b, l, k])
        \<and> (lstms self ! l) (outs ! l) (h_l, c_l) = Inr (outs ! Suc l, hs ! l, cs ! l))
    \<and> getitem result STATE_OUT = Inr (Dict [(Str ''h'', Leaf h_out), (Str ''c'', Leaf c_out)])
    \<and> (\<forall>l<length (lstms self). \<forall>b k. valid_idx (shape (hs ! l)) [b, k]
          \<longrightarrow> at h_out [b, l, k] = at (hs ! l) [b, k])
    \<and> (\<forall>l<length (lstms self). \<forall>b k. valid_idx (shape (cs ! l)) [b, k]
          \<longrightarrow> at c_out [b, l, k] = at (cs ! l) [b, k])"
proof -
  from lstm_forward_trace[OF fwd st h c] show ?thesis by blast
qed

theorem lstm_state_layout_round_trip_witness:
  "TfLSTMEncoder__forward demo_tf demo_lstm_encoder demo_lstm_inputs = Inr demo_lstm_result
   \<and> getitem demo_lstm_inputs STATE_IN = Inr demo_state_in
   \<and> getitem demo_state_in (Str ''h'') = Inr (Leaf demo_h_in)
   \<and> getitem demo_state_in (Str ''c'') = Inr (Leaf demo_c_in)
   \<and> (\<exists>hs cs h_out c_out.
        length hs = 2 \<and> length cs = 2
      \<and> getitem demo_lstm_result STATE_OUT
          = Inr (Dict [(Str ''h'', Leaf h_out), (Str ''c'', Leaf c_out)])
      \<and> (\<forall>l<2. \<forall>b k. valid_idx (shape (hs ! l)) [b, k]
            \<longrightarrow> at h_out [b, l, k] = at (hs ! l) [b, k])
      \<and> (\<forall>l<2. \<forall>b k. valid_idx (shape (cs ! l)) [b, k]
            \<longrightarrow> at c_out [b, l, k] = at (cs ! l) [b, k]))"
proof -
  have a: "TfLSTMEncoder__forward demo_tf demo_lstm_encoder demo_lstm_inputs = Inr demo_lstm_result"
    by code_simp
  have b: "getitem demo_lstm_inputs STATE_IN = Inr demo_state_in"
    by (simp add: demo_lstm_inputs_def)
  have c: "getitem demo_state_in (Str ''h'') = Inr (Leaf demo_h_in)"
    by (simp add: demo_state_in_def)
  have d: "getitem demo_state_in (Str ''c'') = Inr (Leaf demo_c_in)"
    by (simp add: demo_state_in_def)
  have n: "length (lstms demo_lstm_encoder) = 2"
    by code_simp
  from lstm_state_layout_round_trip[OF a b c d] obtain hs cs h_out c_out where
    "length hs = 2" "length cs = 2"
    "getitem demo_lstm_result STATE_OUT
       = Inr (Dict [(Str ''h'', Leaf h_out), (Str ''c'', Leaf c_out)])"
    "\<forall>l<2. \<forall>b k. valid_idx (shape (hs ! l)) [b, k] \<longrightarrow> at h_out [b, l, k] = at (hs ! l) [b, k]"
    "\<forall>l<2. \<forall>b k. valid_idx (shape (cs ! l)) [b, k] \<longrightarrow> at c_out [b, l, k] = at (cs ! l) [b, k]"
    unfolding n by blast
  with a b c d show ?thesis by blast
qed

section \<open>The memoryless encoders\<close>

text \<open>
  C6. Whatever the input of the MLP encoder holds under the state-in key (nothing, zeros
  or anything else), the state-out entry of a result of \<open>_forward\<close> is \<open>None\<close>; and two
  inputs with the same observation entry give the same outcome, so the state-in entry
  plays no part at all.
\<close>

theorem mlp_state_out_none:
  "(TfMLPEncoder__forward self inputs = Inr result \<longrightarrow> getitem result STATE_OUT = Inr NoneV)
   \<and> (getitem inputs OBS = getitem inputs' OBS
        \<longrightarrow> TfMLPEncoder__forward self inputs = TfMLPEncoder__forward self inputs')"
  by (auto simp: TfMLPEncoder__forward_def ebind_eq_Inr)

theorem mlp_state_out_none_witness:
  "TfMLPEncoder__forward demo_mlp_encoder demo_mlp_inputs = Inr demo_mlp_result
   \<and> getitem demo_mlp_result STATE_OUT = Inr NoneV
   \<and> getitem demo_mlp_inputs OBS = getitem (Dict [(OBS, Leaf (Tensor [2, 2] [1, 2, 3, 4]))]) OBS
   \<and> TfMLPEncoder__forward demo_mlp_encoder demo_mlp_inputs
       = TfMLPEncoder__forward demo_mlp_encoder (Dict [(OBS, Leaf (Tensor [2, 2] [1, 2, 3, 4]))])"
proof -
  have a: "TfMLPEncoder__forward demo_mlp_encoder demo_mlp_inputs = Inr demo_mlp_result"
    by code_simp
  have b: "getitem demo_mlp_inputs OBS
             = getitem (Dict [(OBS, Leaf (Tensor [2, 2] [1, 2, 3, 4]))]) OBS"
    by (simp add: demo_mlp_inputs_def)
  from mlp_state_out_none[of demo_mlp_encoder demo_mlp_inputs demo_mlp_result
      "Dict [(OBS, Leaf (Tensor [2, 2] [1, 2, 3, 4]))]"] a b
  show ?thesis by blast
qed

text \<open>
  C7. Whenever \<open>_forward\<close> of the CNN encoder returns, the input has a state-in entry and
  the state-out entry of the result is that very value.
\<close>

theorem cnn_state_passthrough:
  "TfCNNEncoder__forward self inputs = Inr result
   \<Longrightarrow> \<exists>state_in. getitem inputs STATE_IN = Inr state_in
          \<and> getitem result STATE_OUT = Inr state_in"
  by (auto simp: TfCNNEncoder__forward_def ebind_eq_Inr)

theorem cnn_state_passthrough_witness:
  "TfCNNEncoder__forward demo_cnn_encoder demo_cnn_inputs = Inr demo_cnn_result
   \<and> getitem demo_cnn_inputs STATE_IN = Inr demo_state
   \<and> getitem demo_cnn_result STATE_OUT = Inr demo_state"
proof -
  have a: "TfCNNEncoder__forward demo_cnn_encoder demo_cnn_inputs = Inr demo_cnn_result"
    by code_simp
  have b: "getitem demo_cnn_inputs STATE_IN = Inr demo_state"
    by (simp add: demo_cnn_inputs_def)
  from cnn_state_passthrough[OF a] a b show ?thesis by simp
qed

section \<open>Output specs and constructors\<close>

text \<open>
  C8. For every configuration from which the encoder can be constructed,
  \<open>get_output_specs()\<close> of the CNN, the MLP and the recurrent encoder returns a spec
  dictionary whose encoder-output entry binds the feature dimension \<open>d\<close> to
  \<open>output_dims[0]\<close> and binds nothing else: the batch dimension \<open>b\<close> (and, for the
  recurrent encoder, the time dimension \<open>t\<close>) is unconstrained. The function takes no
  input, so no batch size can enter.
\<close>

theorem output_specs_feature_dim:
  "(TfCNNEncoder_init tf cnn_cfg = Inr cnn \<longrightarrow>
      (\<exists>entries. TfCNNEncoder_get_output_specs cnn = Inr (SpecDict entries)
         \<and> map_of entries ENCODER_OUT
             = Some (TensorSpec (TfTensorSpec ''b, d'' [(''d'', output_dims cnn_cfg ! 0)]))))
   \<and> (TfMLPEncoder_init tf mlp_cfg = Inr mlp \<longrightarrow>
      (\<exists>entries. TfMLPEncoder_get_output_specs mlp = Inr (SpecDict entries)
         \<and> map_of entries ENCODER_OUT
             = Some (TensorSpec (TfTensorSpec ''b, d'' [(''d'', output_dims mlp_cfg ! 0)]))))
   \<and> (TfLSTMEncoder_init tf lstm_cfg = Inr lstm \<longrightarrow>
      (\<exists>entries. TfLSTMEncoder_get_output_specs lstm = Inr (SpecDict entries)
         \<and> map_of entries ENCODER_OUT
             = Some (TensorSpec (TfTensorSpec ''b, t, d'' [(''d'', output_dims lstm_cfg ! 0)]))))"
  by (auto simp: TfCNNEncoder_init_def TfCNNEncoder_get_output_specs_def
      TfMLPEncoder_init_def TfMLPEncoder_get_output_specs_def
      TfLSTMEncoder_init_def TfLSTMEncoder_get_output_specs_def
      tuple_getitem_def ebind_eq_Inr Let_def split: if_splits)

theorem output_specs_feature_dim_witness:
  "TfCNNEncoder_init demo_tf demo_cnn_config = Inr demo_cnn_encoder
   \<and> TfMLPEncoder_init demo_tf demo_mlp_config = Inr demo_mlp_encoder
   \<and> TfLSTMEncoder_init demo_tf demo_lstm_config = Inr demo_lstm_encoder
   \<and> (\<exists>entries. TfCNNEncoder_get_output_specs demo_cnn_encoder = Inr (SpecDict entries)
         \<and> map_of entries ENCODER_OUT = Some (TensorSpec (TfTensorSpec ''b, d'' [(''d'', 8)])))
   \<and> (\<exists>entries. TfMLPEncoder_get_output_specs demo_mlp_encoder = Inr (SpecDict entries)
         \<and> map_of entries ENCODER_OUT = Some (TensorSpec (TfTensorSpec ''b, d'' [(''d'', 3)])))
   \<and> (\<exists>entries. TfLSTMEncoder_get_output_specs demo_lstm_encoder = Inr (SpecDict entries)
         \<and> map_of entries ENCODER_OUT = Some (TensorSpec (TfTensorSpec ''b, t, d'' [(''d'', 4)])))"
proof -
  have a: "TfCNNEncoder_init demo_tf demo_cnn_config = Inr demo_cnn_encoder"
    by (simp add: demo_cnn_encoder_def TfCNNEncoder_init_def demo_cnn_config_def
        tuple_getitem_def Let_def)
  have b: "TfMLPEncoder_init demo_tf demo_mlp_config = Inr demo_mlp_encoder"
    by (simp add: demo_mlp_encoder_def TfMLPEncoder_init_def demo_mlp_config_def
        tuple_getitem_def)
  have c: "TfLSTMEncoder_init demo_tf demo_lstm_config = Inr demo_lstm_encoder"
    by (simp add: demo_lstm_encoder_def TfLSTMEncoder_init_def demo_lstm_config_def
        tuple_getitem_def Let_def)
  have d: "output_dims demo_cnn_config ! 0 = 8" "output_dims demo_mlp_config ! 0 = 3"
    "output_dims demo_lstm_config ! 0 = 4"
    by (simp_all add: demo_cnn_config_def demo_mlp_config_def demo_lstm_config_def)
  from output_specs_feature_dim[of demo_tf demo_cnn_config demo_cnn_encoder
      demo_mlp_config demo_mlp_encoder demo_lstm_config demo_lstm_encoder] a b c
  show ?thesis unfolding d by blast
qed

text \<open>
  C10. The constructor of the recurrent encoder calls the framework-model initializer
  \<open>TfModel.__init__\<close> and no other base initializer, in particular not
  \<open>Encoder.__init__\<close>; the constructors of the CNN encoder and of the MLP encoder call
  \<open>TfModel.__init__\<close> and then \<open>Encoder.__init__\<close>; the constructor of the actor-critic
  composite calls \<open>TfModel.__init__\<close> and then the contract base's
  \<open>ActorCriticEncoder.__init__\<close>.
\<close>

theorem constructor_initializer_calls:
  "(TfLSTMEncoder_init tf lstm_cfg = Inr lstm \<longrightarrow>
      init_calls lstm = [TfModel_init] \<and> Encoder_init \<notin> set (init_calls lstm))
   \<and> (TfCNNEncoder_init tf cnn_cfg = Inr cnn \<longrightarrow>
      init_calls cnn = [TfModel_init, Encoder_init])
   \<and> (TfMLPEncoder_init tf mlp_cfg = Inr mlp \<longrightarrow>
      init_calls mlp = [TfModel_init, Encoder_init])
   \<and> init_calls (TfActorCriticEncoder_init build ac_cfg)
       = [TfModel_init, ActorCriticEncoder_init]"
  by (auto simp: TfCNNEncoder_init_def TfMLPEncoder_init_def TfLSTMEncoder_init_def
      TfActorCriticEncoder_init_def ebind_eq_Inr Let_def)

theorem constructor_initializer_calls_witness:
  "TfLSTMEncoder_init demo_tf demo_lstm_config = Inr demo_lstm_encoder
   \<and> TfCNNEncoder_init demo_tf demo_cnn_config = Inr demo_cnn_encoder
   \<and> TfMLPEncoder_init demo_tf demo_mlp_config = Inr demo_mlp_encoder
   \<and> init_calls demo_lstm_encoder = [TfModel_init]
   \<and> Encoder_init \<notin> set (init_calls demo_lstm_encoder)
   \<and> init_calls demo_cnn_encoder = [TfModel_init, Encoder_init]
   \<and> init_calls demo_mlp_encoder = [TfModel_init, Encoder_init]
   \<and> init_calls demo_ac_encoder = [TfModel_init, ActorCriticEncoder_init]"
proof -
  have a: "TfCNNEncoder_init demo_tf demo_cnn_config = Inr demo_cnn_encoder"
    by (simp add: demo_cnn_encoder_def TfCNNEncoder_init_def demo_cnn_config_def
        tuple_getitem_def Let_def)
  have b: "TfMLPEncoder_init demo_tf demo_mlp_config = Inr demo_mlp_encoder"
    by (simp add: demo_mlp_encoder_def TfMLPEncoder_init_def demo_mlp_config_def
        tuple_getitem_def)
  have c: "TfLSTMEncoder_init demo_tf demo_lstm_config = Inr demo_lstm_encoder"
    by (simp add: demo_lstm_encoder_def TfLSTMEncoder_init_def demo_lstm_config_def
        tuple_getitem_def Let_def)
  from constructor_initializer_calls[of demo_tf demo_lstm_config demo_lstm_encoder
      demo_cnn_config demo_cnn_encoder demo_mlp_config demo_mlp_encoder demo_build "()"] a b c
  show ?thesis by (simp add: demo_ac_encoder_def)
qed

section \<open>The recurrent encoder follows the specified algorithm\<close>

text \<open>
  C4. On an input whose observation entry is a tensor and whose state-in entry holds the
  tensors \<open>h_in\<close> and \<open>c_in\<close>, \<open>_forward\<close> of the recurrent encoder returns exactly when the
  algorithm of the spec can be carried out, and returns what it computes: the
  observation cast to float32, the state transposed to layers-first, the cells run in
  order from layer 0, cell \<open>i\<close> on slice \<open>i\<close> of the hidden and cell state and on the
  previous cell's sequence output, the per-layer states stacked into batch-first
  tensors, and the linear projection applied to the last cell's output sequence.
\<close>

theorem lstm_forward_refines_spec_algorithm:
  assumes obs: "getitem inputs OBS = Inr (Leaf obs)"
    and st: "getitem inputs STATE_IN = Inr (Dict [(Str ''h'', Leaf h_in), (Str ''c'', Leaf c_in)])"
  shows "TfLSTMEncoder__forward tf self inputs = Inr result
     \<longleftrightarrow> (\<exists>out h c.
            spec_lstm_algorithm (float32 tf) (lstms self) (linear self) obs h_in c_in
              = Some (out, h, c)
          \<and> result = Dict [(ENCODER_OUT, Leaf out),
                           (STATE_OUT, Dict [(Str ''h'', Leaf h), (Str ''c'', Leaf c)])])"
proof (cases "spec_layers_first h_in")
  case None
  then have "\<And>T. tf_transpose (Leaf h_in) [1, 0, 2] \<noteq> Inr T"
    using transpose_iff_layers_first[of h_in] by simp
  then have "\<And>r. TfLSTMEncoder__forward tf self inputs \<noteq> Inr r"
    unfolding TfLSTMEncoder__forward_def using obs st
    by (auto simp: ebind_eq_Inr tf_cast_Leaf)
  with None show ?thesis by (simp add: spec_lstm_algorithm_def)
next
  case h: (Some Th)
  show ?thesis
  proof (cases "spec_layers_first c_in")
    case None
    then have "\<And>T. tf_transpose (Leaf c_in) [1, 0, 2] \<noteq> Inr T"
      using transpose_iff_layers_first[of c_in] by simp
    then have "\<And>r. TfLSTMEncoder__forward tf self inputs \<noteq> Inr r"
      unfolding TfLSTMEncoder__forward_def using obs st
      by (auto simp: ebind_eq_Inr tf_cast_Leaf)
    with None h show ?thesis by (simp add: spec_lstm_algorithm_def)
  next
    case c: (Some Tc)
    let ?x = "spec_cast (float32 tf) obs"
    let ?states_in = "Dict [(Str ''h'', Leaf Th), (Str ''c'', Leaf Tc)]"
    have ms: "map_structure (\<lambda>s. tf_transpose s [1, 0, 2])
                (Dict [(Str ''h'', Leaf h_in), (Str ''c'', Leaf c_in)]) = Inr ?states_in"
      using h c transpose_iff_layers_first[of h_in Th] transpose_iff_layers_first[of c_in Tc]
      by (simp add: map_structure_state)
    have loop: "lstm_loop (lstms self) 0 ?states_in ?x [] [] = Inr r
                  \<longleftrightarrow> spec_cells (lstms self) ?x Th Tc (length (lstms self)) = Some r" for r
      using spec_layers_first_shape[OF h] spec_layers_first_shape[OF c]
      by (intro lstm_loop_iff_spec_cells[of _ _ _ _ "[]"]) simp_all
    have fwd: "TfLSTMEncoder__forward tf self inputs =
            ebind (lstm_loop (lstms self) 0 ?states_in ?x [] []) (\<lambda>(out, states_out_h, states_out_c).
            ebind (linear self out) (\<lambda>out.
            ebind (tf_stack states_out_h 1) (\<lambda>h.
            ebind (tf_stack states_out_c 1) (\<lambda>c.
            Inr (Dict [(ENCODER_OUT, Leaf out),
                       (STATE_OUT, Dict [(Str ''h'', Leaf h), (Str ''c'', Leaf c)])])))))"
      unfolding TfLSTMEncoder__forward_def using obs st ms by (simp add: tf_cast_Leaf)
    show ?thesis
    proof (cases "spec_cells (lstms self) ?x Th Tc (length (lstms self))")
      case None
      then have "\<And>r. lstm_loop (lstms self) 0 ?states_in ?x [] [] \<noteq> Inr r"
        using loop by simp
      then have "\<And>r. TfLSTMEncoder__forward tf self inputs \<noteq> Inr r"
        unfolding fwd by (auto simp: ebind_eq_Inr)
      with None h c show ?thesis by (simp add: spec_lstm_algorithm_def)
    next
      case (Some r)
      obtain seq hs cs where r: "r = (seq, hs, cs)" by (cases r)
      from Some r loop have l: "lstm_loop (lstms self) 0 ?states_in ?x [] [] = Inr (seq, hs, cs)"
        by simp
      have alg: "spec_lstm_algorithm (float32 tf) (lstms self) (linear self) obs h_in c_in =
        (case (spec_batch_first hs, spec_batch_first cs, linear self seq) of
           (Some h_out, Some c_out, Inr out) \<Rightarrow> Some (out, h_out, c_out)
         | _ \<Rightarrow> None)"
        using h c Some r by (simp add: spec_lstm_algorithm_def)
      show ?thesis
        unfolding fwd l alg
        by (cases "linear self seq"; cases "spec_batch_first hs"; cases "spec_batch_first cs")
           (auto simp: ebind_eq_Inr stack_iff_batch_first[unfolded One_nat_def])
    qed
  qed
qed

theorem lstm_forward_refines_spec_algorithm_witness:
  "getitem demo_lstm_inputs OBS = Inr (Leaf demo_lstm_obs)
   \<and> getitem demo_lstm_inputs STATE_IN
       = Inr (Dict [(Str ''h'', Leaf demo_h_in), (Str ''c'', Leaf demo_c_in)])
   \<and> TfLSTMEncoder__forward demo_tf demo_lstm_encoder demo_lstm_inputs = Inr demo_lstm_result
   \<and> (\<exists>out h c.
        spec_lstm_algorithm (float32 demo_tf) (lstms demo_lstm_encoder)
          (linear demo_lstm_encoder) demo_lstm_obs demo_h_in demo_c_in = Some (out, h, c)
      \<and> demo_lstm_result = Dict [(ENCODER_OUT, Leaf out),
                           (STATE_OUT, Dict [(Str ''h'', Leaf h), (Str ''c'', Leaf c)])])"
proof -
  have a: "getitem demo_lstm_inputs OBS = Inr (Leaf demo_lstm_obs)"
    by (simp add: demo_lstm_inputs_def)
  have b: "getitem demo_lstm_inputs STATE_IN
             = Inr (Dict [(Str ''h'', Leaf demo_h_in), (Str ''c'', Leaf demo_c_in)])"
    by (simp add: demo_lstm_inputs_def demo_state_in_def)
  have c: "TfLSTMEncoder__forward demo_tf demo_lstm_encoder demo_lstm_inputs = Inr demo_lstm_result"
    by code_simp
  from lstm_forward_refines_spec_algorithm[OF a b, of demo_tf demo_lstm_encoder demo_lstm_result]
    a b c
  show ?thesis by blast
qed

section \<open>State-in and state-out of the recurrent encoder\<close>

text \<open>
  C5. For a recurrent encoder built from a configuration, whose layers return states
  shaped like the states they are given: the state entry of the output spec is the state
  entry of the input spec (\<open>h\<close> and \<open>c\<close>, each \<open>b, l, h\<close> with \<open>l = num_lstm_layers\<close> and
  \<open>h = hidden_dim\<close>), and for every input that conforms to the input spec, whenever
  \<open>_forward\<close> returns, the state-out tensors have the shapes of the state-in tensors.
\<close>

theorem lstm_state_shape_preserved:
  assumes init: "TfLSTMEncoder_init tf cfg = Inr self"
    and keep: "\<forall>layer \<in> set (lstms self). lstm_keeps_state_shape layer"
    and conf: "conforms (TfLSTMEncoder_get_input_specs self) inputs"
    and fwd: "TfLSTMEncoder__forward tf self inputs = Inr result"
  shows "\<exists>state_in h_in c_in h_out c_out in_entries out_entries.
      getitem inputs STATE_IN = Inr state_in
    \<and> getitem state_in (Str ''h'') = Inr (Leaf h_in)
    \<and> getitem state_in (Str ''c'') = Inr (Leaf c_in)
    \<and> getitem result STATE_OUT = Inr (Dict [(Str ''h'', Leaf h_out), (Str ''c'', Leaf c_out)])
    \<and> shape h_out = shape h_in \<and> shape c_out = shape c_in
    \<and> TfLSTMEncoder_get_input_specs self = Inr (SpecDict in_entries)
    \<and> TfLSTMEncoder_get_output_specs self = Inr (SpecDict out_entries)
    \<and> map_of out_entries STATE_OUT = map_of in_entries STATE_IN
    \<and> map_of in_entries STATE_IN = Some (SpecDict
          [(Str ''h'', TensorSpec (TfTensorSpec ''b, l, h''
              [(''h'', hidden_dim cfg), (''l'', num_lstm_layers cfg)])),
           (Str ''c'', TensorSpec (TfTensorSpec ''b, l, h''
              [(''h'', hidden_dim cfg), (''l'', num_lstm_layers cfg)]))])"
proof -
  note i = TfLSTMEncoder_init_Inr[OF init]
  let ?n = "length (lstms self)"
  from lstm_input_conforms[OF conf] i(1) obtain kvs st h_in c_in B B' where
    inputs: "inputs = Dict kvs" and sti: "map_of kvs STATE_IN = Some (Dict st)"
    and hi: "map_of st (Str ''h'') = Some (Leaf h_in)"
    and ci: "map_of st (Str ''c'') = Some (Leaf c_in)"
    and shi: "shape h_in = [B, nat (num_lstm_layers cfg), nat (hidden_dim cfg)]"
    and sci: "shape c_in = [B', nat (num_lstm_layers cfg), nat (hidden_dim cfg)]"
    and ne: "input_dims cfg \<noteq> []"
    by auto
  have g1: "getitem inputs STATE_IN = Inr (Dict st)" using inputs sti by simp
  have g2: "getitem (Dict st) (Str ''h'') = Inr (Leaf h_in)" using hi by simp
  have g3: "getitem (Dict st) (Str ''c'') = Inr (Leaf c_in)" using ci by simp
  from lstm_forward_trace[OF fwd g1 g2 g3] obtain B0 L0 H0 B1 L1 H1 outs hs cs h_out c_out where
    s0: "shape h_in = [B0, L0, H0]" "shape c_in = [B1, L1, H1]"
    and lens: "length hs = ?n" "length cs = ?n"
    and calls0: "\<forall>l<?n. \<exists>h_l c_l.
          l < L0 \<and> l < L1 \<and> shape h_l = [B0, H0] \<and> shape c_l = [B1, H1]
        \<and> (\<forall>b<B0. \<forall>k<H0. at h_l [b, k] = at h_in [b, l, k])
        \<and> (\<forall>b<B1. \<forall>k<H1. at c_l [b, k] = at c_in [b, l, k])
        \<and> (lstms self ! l) (outs ! l) (h_l, c_l) = Inr (outs ! Suc l, hs ! l, cs ! l)"
    and out: "getitem result STATE_OUT
                = Inr (Dict [(Str ''h'', Leaf h_out), (Str ''c'', Leaf c_out)])"
    and sh: "tf_stack hs 1 = Inr h_out" and sc: "tf_stack cs 1 = Inr c_out"
    by blast
  from s0 shi sci have eqs: "B0 = B" "H0 = nat (hidden_dim cfg)" "B1 = B'" "H1 = nat (hidden_dim cfg)"
    by simp_all
  have calls: "\<exists>h_l c_l.
          shape h_l = [B, nat (hidden_dim cfg)] \<and> shape c_l = [B', nat (hidden_dim cfg)]
        \<and> (lstms self ! l) (outs ! l) (h_l, c_l) = Inr (outs ! Suc l, hs ! l, cs ! l)"
    if "l < ?n" for l
    using calls0 that unfolding eqs by blast
  have shapes: "shape (hs ! l) = [B, nat (hidden_dim cfg)] \<and> shape (cs ! l) = [B', nat (hidden_dim cfg)]"
    if l: "l < ?n" for l
  proof -
    from calls[OF l] obtain h_l c_l where
      s: "shape h_l = [B, nat (hidden_dim cfg)]" "shape c_l = [B', nat (hidden_dim cfg)]"
      and call: "(lstms self ! l) (outs ! l) (h_l, c_l) = Inr (outs ! Suc l, hs ! l, cs ! l)"
      by blast
    from l keep have "lstm_keeps_state_shape (lstms self ! l)" by simp
    with call s show ?thesis unfolding lstm_keeps_state_shape_def by metis
  qed
  have "shape h_out = [B, length hs, nat (hidden_dim cfg)]"
    using shapes lens by (intro stack_keeps_shape[OF sh]) simp
  then have ho: "shape h_out = shape h_in" using lens i(2) shi by simp
  have "shape c_out = [B', length cs, nat (hidden_dim cfg)]"
    using shapes lens by (intro stack_keeps_shape[OF sc]) simp
  then have co: "shape c_out = shape c_in" using lens i(2) sci by simp
  let ?state = "SpecDict
          [(Str ''h'', TensorSpec (TfTensorSpec ''b, l, h''
              [(''h'', hidden_dim cfg), (''l'', num_lstm_layers cfg)])),
           (Str ''c'', TensorSpec (TfTensorSpec ''b, l, h''
              [(''h'', hidden_dim cfg), (''l'', num_lstm_layers cfg)]))]"
  let ?ins = "[(OBS, TensorSpec (TfTensorSpec ''b, t, d'' [(''d'', input_dims cfg ! 0)])),
               (STATE_IN, ?state)]"
  let ?outs = "[(ENCODER_OUT, TensorSpec (TfTensorSpec ''b, t, d'' [(''d'', output_dims cfg ! 0)])),
                (STATE_OUT, ?state)]"
  have ispec: "TfLSTMEncoder_get_input_specs self = Inr (SpecDict ?ins)"
    using ne i(1) by (simp add: TfLSTMEncoder_get_input_specs_def tuple_getitem_def)
  have ospec: "TfLSTMEncoder_get_output_specs self = Inr (SpecDict ?outs)"
    using i(1,3) by (simp add: TfLSTMEncoder_get_output_specs_def tuple_getitem_def)
  show ?thesis
    apply (rule exI[of _ "Dict st"], rule exI[of _ h_in], rule exI[of _ c_in])
    apply (rule exI[of _ h_out], rule exI[of _ c_out])
    apply (rule exI[of _ ?ins], rule exI[of _ ?outs])
    using g1 g2 g3 out ho co ispec ospec by simp
qed

theorem lstm_state_shape_preserved_witness:
  "TfLSTMEncoder_init demo_tf demo_lstm_config = Inr demo_lstm_encoder
   \<and> conforms (TfLSTMEncoder_get_input_specs demo_lstm_encoder) demo_lstm_inputs
   \<and> TfLSTMEncoder__forward demo_tf demo_lstm_encoder demo_lstm_inputs = Inr demo_lstm_result
   \<and> (\<exists>state_in h_in c_in h_out c_out.
        getitem demo_lstm_inputs STATE_IN = Inr state_in
      \<and> getitem state_in (Str ''h'') = Inr (Leaf h_in)
      \<and> getitem state_in (Str ''c'') = Inr (Leaf c_in)
      \<and> getitem demo_lstm_result STATE_OUT
          = Inr (Dict [(Str ''h'', Leaf h_out), (Str ''c'', Leaf c_out)])
      \<and> shape h_out = shape h_in \<and> shape c_out = shape c_in)"
proof -
  have a: "TfLSTMEncoder__forward demo_tf demo_lstm_encoder demo_lstm_inputs = Inr demo_lstm_result"
    by code_simp
  from lstm_state_shape_preserved[OF demo_lstm_init demo_lstm_keeps demo_lstm_conforms a]
    demo_lstm_init demo_lstm_conforms a
  show ?thesis by blast
qed

section \<open>The initial state of the recurrent encoder\<close>

text \<open>
  C3. \<open>get_initial_state()\<close> reads \<open>config.num_layers\<close>, where the constructor,
  \<open>get_input_specs()\<close> and \<open>get_output_specs()\<close> read \<open>config.num_lstm_layers\<close>. Over a
  configuration as the spec describes it, which has \<open>num_lstm_layers\<close> and no
  \<open>num_layers\<close>, it raises \<open>AttributeError\<close> and returns no state: so it does for every
  encoder over such a configuration, and so it does for the sample encoder of 2 layers and
  hidden dimension 3.
\<close>

theorem get_initial_state_raises:
  "(TfLSTMEncoder_get_initial_state (self\<lparr>config := (config self)\<lparr>num_layers := None\<rparr>\<rparr>)
      :: error + ('a::zero) nested) = Inl (AttributeError ''num_layers'')
   \<and> TfLSTMEncoder_init demo_tf demo_lstm_config = Inr demo_lstm_encoder
   \<and> num_lstm_layers (config demo_lstm_encoder) = 2
   \<and> hidden_dim (config demo_lstm_encoder) = 3
   \<and> num_layers (config demo_lstm_encoder) = None
   \<and> (TfLSTMEncoder_get_initial_state demo_lstm_encoder :: error + int nested)
       = Inl (AttributeError ''num_layers'')"
proof -
  have "(TfLSTMEncoder_get_initial_state (self\<lparr>config := (config self)\<lparr>num_layers := None\<rparr>\<rparr>)
      :: error + 'a nested) = Inl (AttributeError ''num_layers'')"
    by (simp add: TfLSTMEncoder_get_initial_state_def)
  moreover have "config demo_lstm_encoder = demo_lstm_config"
    by (rule TfLSTMEncoder_init_Inr(1)[OF demo_lstm_init])
  then have "num_lstm_layers (config demo_lstm_encoder) = 2"
    "hidden_dim (config demo_lstm_encoder) = 3"
    "num_layers (config demo_lstm_encoder) = None"
    "(TfLSTMEncoder_get_initial_state demo_lstm_encoder :: error + int nested)
       = Inl (AttributeError ''num_layers'')"
    by (simp_all add: demo_lstm_config_def TfLSTMEncoder_get_initial_state_def)
  ultimately show ?thesis using demo_lstm_init by (intro conjI)
qed

section \<open>The forward contract\<close>

text \<open>
  C2, as the contract and the code have it (\<open>forward\<close> and validation are modelled from
  the spec). Under the layers' call contract and a non-negative output dimension:
  \<open>forward\<close> of the CNN encoder and of the MLP encoder succeeds on every input that
  conforms to \<open>get_input_specs()\<close>, with a result that conforms to \<open>get_output_specs()\<close>;
  \<open>forward\<close> of the recurrent encoder does so when, in addition, it has at least one
  layer, the state-in holds the two tensors \<open>h\<close> and \<open>c\<close> and nothing else, and their batch
  size is the observation's. For every encoder, an input that fails validation makes
  \<open>forward\<close> fail with \<open>InputSpecViolation\<close> carrying the path validation reports: a
  missing key (the keys before it being satisfied) is reported as that key, and so is a
  tensor that fails its spec. A result of \<open>_forward\<close> that fails validation makes
  \<open>forward\<close> fail with \<open>OutputSpecViolation\<close>. The CNN encoder with
  \<open>input_dims = (4, 4, 3)\<close> and \<open>output_dims = (8,)\<close> maps an observation of shape
  (2, 4, 4, 3) to an encoder output of shape (2, 8), and rejects an observation of shape
  (2, 5, 4, 3) with an \<open>InputSpecViolation\<close> at the observation key for dimension \<open>w\<close>.
\<close>

theorem forward_contract:
  "(layers_ok tf \<and> TfCNNEncoder_init tf cnn_cfg = Inr cnn \<and> 0 \<le> output_dims cnn_cfg ! 0
      \<and> conforms (TfCNNEncoder_get_input_specs cnn) cnn_inputs
    \<longrightarrow> (\<exists>result. TfCNNEncoder_forward cnn cnn_inputs = Inr result
           \<and> conforms (TfCNNEncoder_get_output_specs cnn) result))
   \<and> (layers_ok tf \<and> TfMLPEncoder_init tf mlp_cfg = Inr mlp \<and> 0 \<le> output_dims mlp_cfg ! 0
      \<and> conforms (TfMLPEncoder_get_input_specs mlp) mlp_inputs
    \<longrightarrow> (\<exists>result. TfMLPEncoder_forward mlp mlp_inputs = Inr result
           \<and> conforms (TfMLPEncoder_get_output_specs mlp) result))
   \<and> (layers_ok tf \<and> TfLSTMEncoder_init tf lstm_cfg = Inr lstm \<and> 0 \<le> output_dims lstm_cfg ! 0
      \<and> 0 < num_lstm_layers lstm_cfg
      \<and> conforms (TfLSTMEncoder_get_input_specs lstm) lstm_inputs
      \<and> getitem lstm_inputs OBS = Inr (Leaf obs)
      \<and> getitem lstm_inputs STATE_IN
           = Inr (Dict [(Str ''h'', Leaf h_in), (Str ''c'', Leaf c_in)])
      \<and> shape h_in ! 0 = obs_batch lstm_cfg obs \<and> shape c_in ! 0 = obs_batch lstm_cfg obs
    \<longrightarrow> (\<exists>result. TfLSTMEncoder_forward tf lstm lstm_inputs = Inr result
           \<and> conforms (TfLSTMEncoder_get_output_specs lstm) result))
   \<and> (validate in_spec inputs = Some (path, v)
    \<longrightarrow> Encoder_forward (Inr in_spec) forward' out_specs inputs
          = Inl (InputSpecViolation path v))
   \<and> (validate_items pre kvs = None \<and> map_of kvs k = None
    \<longrightarrow> validate (SpecDict (pre @ (k, sp) # post)) (Dict kvs) = Some ([k], MissingKey))
   \<and> (validate_items pre' kvs' = None \<and> map_of kvs' k' = Some (Leaf t)
      \<and> check_tensor ts t = Some v'
    \<longrightarrow> validate (SpecDict (pre' @ (k', TensorSpec ts) # post')) (Dict kvs') = Some ([k'], v'))
   \<and> (validate in_spec' inputs' = None \<and> forward'' inputs' = Inr result'
      \<and> validate out_spec result' = Some (path', v'')
    \<longrightarrow> Encoder_forward (Inr in_spec') forward'' (Inr out_spec) inputs'
          = Inl (OutputSpecViolation path' v''))
   \<and> (layers_ok tf \<and> TfCNNEncoder_init tf cfg48 = Inr cnn48
      \<and> input_dims cfg48 = [4, 4, 3] \<and> output_dims cfg48 = [8] \<and> shape x = [2, 4, 4, 3]
    \<longrightarrow> (\<exists>y. TfCNNEncoder_forward cnn48 (Dict [(OBS, Leaf x), (STATE_IN, s), (SEQ_LENS, q)])
               = Inr (Dict [(ENCODER_OUT, Leaf y), (STATE_OUT, s)])
           \<and> shape y = [2, 8]))
   \<and> (TfCNNEncoder_init tf cfg48' = Inr cnn48' \<and> input_dims cfg48' = [4, 4, 3]
      \<and> shape x' = [2, 5, 4, 3]
    \<longrightarrow> TfCNNEncoder_forward cnn48' (Dict [(OBS, Leaf x'), (STATE_IN, s'), (SEQ_LENS, q')])
          = Inl (InputSpecViolation [OBS] (DimMismatch ''w'' 4 5)))"
proof (intro conjI impI)
  assume "layers_ok tf \<and> TfCNNEncoder_init tf cnn_cfg = Inr cnn \<and> 0 \<le> output_dims cnn_cfg ! 0
      \<and> conforms (TfCNNEncoder_get_input_specs cnn) cnn_inputs"
  then show "\<exists>result. TfCNNEncoder_forward cnn cnn_inputs = Inr result
           \<and> conforms (TfCNNEncoder_get_output_specs cnn) result"
    by (intro cnn_forward_contract[of tf cnn_cfg]) simp_all
next
  assume "layers_ok tf \<and> TfMLPEncoder_init tf mlp_cfg = Inr mlp \<and> 0 \<le> output_dims mlp_cfg ! 0
      \<and> conforms (TfMLPEncoder_get_input_specs mlp) mlp_inputs"
  then show "\<exists>result. TfMLPEncoder_forward mlp mlp_inputs = Inr result
           \<and> conforms (TfMLPEncoder_get_output_specs mlp) result"
    by (intro mlp_forward_contract[of tf mlp_cfg]) simp_all
next
  assume "layers_ok tf \<and> TfLSTMEncoder_init tf lstm_cfg = Inr lstm \<and> 0 \<le> output_dims lstm_cfg ! 0
      \<and> 0 < num_lstm_layers lstm_cfg
      \<and> conforms (TfLSTMEncoder_get_input_specs lstm) lstm_inputs
      \<and> getitem lstm_inputs OBS = Inr (Leaf obs)
      \<and> getitem lstm_inputs STATE_IN
           = Inr (Dict [(Str ''h'', Leaf h_in), (Str ''c'', Leaf c_in)])
      \<and> shape h_in ! 0 = obs_batch lstm_cfg obs \<and> shape c_in ! 0 = obs_batch lstm_cfg obs"
  then show "\<exists>result. TfLSTMEncoder_forward tf lstm lstm_inputs = Inr result
           \<and> conforms (TfLSTMEncoder_get_output_specs lstm) result"
    by (intro lstm_forward_contract[of tf lstm_cfg lstm lstm_inputs obs h_in c_in]) simp_all
next
  assume "validate in_spec inputs = Some (path, v)"
  then show "Encoder_forward (Inr in_spec) forward' out_specs inputs
          = Inl (InputSpecViolation path v)"
    by (rule Encoder_forward_input_violation)
next
  assume "validate_items pre kvs = None \<and> map_of kvs k = None"
  then show "validate (SpecDict (pre @ (k, sp) # post)) (Dict kvs) = Some ([k], MissingKey)"
    by (intro validate_missing_key) simp_all
next
  assume "validate_items pre' kvs' = None \<and> map_of kvs' k' = Some (Leaf t)
      \<and> check_tensor ts t = Some v'"
  then show "validate (SpecDict (pre' @ (k', TensorSpec ts) # post')) (Dict kvs') = Some ([k'], v')"
    by (intro validate_tensor_mismatch[of pre' kvs' k' t]) simp_all
next
  assume "validate in_spec' inputs' = None \<and> forward'' inputs' = Inr result'
      \<and> validate out_spec result' = Some (path', v'')"
  then show "Encoder_forward (Inr in_spec') forward'' (Inr out_spec) inputs'
          = Inl (OutputSpecViolation path' v'')"
    by (intro Encoder_forward_output_violation[where result = result']) simp_all
next
  assume "layers_ok tf \<and> TfCNNEncoder_init tf cfg48 = Inr cnn48
      \<and> input_dims cfg48 = [4, 4, 3] \<and> output_dims cfg48 = [8] \<and> shape x = [2, 4, 4, 3]"
  then show "\<exists>y. TfCNNEncoder_forward cnn48 (Dict [(OBS, Leaf x), (STATE_IN, s), (SEQ_LENS, q)])
               = Inr (Dict [(ENCODER_OUT, Leaf y), (STATE_OUT, s)])
           \<and> shape y = [2, 8]"
    by (intro cnn_scenario_accepts[of tf cfg48]) simp_all
next
  assume "TfCNNEncoder_init tf cfg48' = Inr cnn48' \<and> input_dims cfg48' = [4, 4, 3]
      \<and> shape x' = [2, 5, 4, 3]"
  then show "TfCNNEncoder_forward cnn48' (Dict [(OBS, Leaf x'), (STATE_IN, s'), (SEQ_LENS, q')])
          = Inl (InputSpecViolation [OBS] (DimMismatch ''w'' 4 5))"
    by (intro cnn_scenario_rejects[of tf cfg48']) simp_all
qed

theorem forward_contract_witness:
  "layers_ok demo_tf
   \<and> TfCNNEncoder_init demo_tf demo_cnn_config = Inr demo_cnn_encoder
   \<and> 0 \<le> output_dims demo_cnn_config ! 0
   \<and> conforms (TfCNNEncoder_get_input_specs demo_cnn_encoder) demo_cnn_inputs
   \<and> (\<exists>result. TfCNNEncoder_forward demo_cnn_encoder demo_cnn_inputs = Inr result
         \<and> conforms (TfCNNEncoder_get_output_specs demo_cnn_encoder) result)
   \<and> TfMLPEncoder_init demo_tf demo_mlp_config = Inr demo_mlp_encoder
   \<and> 0 \<le> output_dims demo_mlp_config ! 0
   \<and> conforms (TfMLPEncoder_get_input_specs demo_mlp_encoder) demo_mlp_inputs
   \<and> (\<exists>result. TfMLPEncoder_forward demo_mlp_encoder demo_mlp_inputs = Inr result
         \<and> conforms (TfMLPEncoder_get_output_specs demo_mlp_encoder) result)
   \<and> TfLSTMEncoder_init demo_tf demo_lstm_config = Inr demo_lstm_encoder
   \<and> 0 \<le> output_dims demo_lstm_config ! 0 \<and> 0 < num_lstm_layers demo_lstm_config
   \<and> conforms (TfLSTMEncoder_get_input_specs demo_lstm_encoder) demo_lstm_inputs
   \<and> getitem demo_lstm_inputs OBS = Inr (Leaf demo_lstm_obs)
   \<and> getitem demo_lstm_inputs STATE_IN
        = Inr (Dict [(Str ''h'', Leaf demo_h_in), (Str ''c'', Leaf demo_c_in)])
   \<and> shape demo_h_in ! 0 = obs_batch demo_lstm_config demo_lstm_obs
   \<and> shape demo_c_in ! 0 = obs_batch demo_lstm_config demo_lstm_obs
   \<and> (\<exists>result. TfLSTMEncoder_forward demo_tf demo_lstm_encoder demo_lstm_inputs = Inr result
         \<and> conforms (TfLSTMEncoder_get_output_specs demo_lstm_encoder) result)
   \<and> validate (SpecDict [(OBS, TensorSpec (TfTensorSpec ''b, d'' [(''d'', 2)]))])
        demo_mlp_inputs_no_obs = Some ([OBS], MissingKey)
   \<and> Encoder_forward (Inr (SpecDict [(OBS, TensorSpec (TfTensorSpec ''b, d'' [(''d'', 2)]))]))
        (TfMLPEncoder__forward demo_mlp_encoder) (TfMLPEncoder_get_output_specs demo_mlp_encoder)
        demo_mlp_inputs_no_obs = Inl (InputSpecViolation [OBS] MissingKey)
   \<and> validate_items [(OBS, NoSpec)] [(OBS, demo_state), (SEQ_LENS, NoneV)] = None
   \<and> map_of [(OBS, demo_state), (SEQ_LENS, NoneV)] STATE_IN = None
   \<and> validate (SpecDict ([(OBS, NoSpec)] @ (STATE_IN, NoSpec) # [(SEQ_LENS, NoSpec)]))
        (Dict [(OBS, demo_state), (SEQ_LENS, NoneV)]) = Some ([STATE_IN], MissingKey)
   \<and> validate_items [] [(OBS, Leaf (Tensor [2, 5, 4, 3] (replicate 120 (1::int))))] = None
   \<and> map_of [(OBS, Leaf (Tensor [2, 5, 4, 3] (replicate 120 (1::int))))] OBS
        = Some (Leaf (Tensor [2, 5, 4, 3] (replicate 120 1)))
   \<and> check_tensor (TfTensorSpec ''b, w, h, c'' [(''w'', 4), (''h'', 4), (''c'', 3)])
        (Tensor [2, 5, 4, 3] (replicate 120 (1::int))) = Some (DimMismatch ''w'' 4 5)
   \<and> validate (SpecDict ([] @ (OBS, TensorSpec
          (TfTensorSpec ''b, w, h, c'' [(''w'', 4), (''h'', 4), (''c'', 3)])) # []))
        (Dict [(OBS, Leaf (Tensor [2, 5, 4, 3] (replicate 120 (1::int))))])
        = Some ([OBS], DimMismatch ''w'' 4 5)
   \<and> validate NoSpec demo_state = None
   \<and> validate (SpecDict [(ENCODER_OUT, NoSpec)]) (Dict [(STATE_OUT, demo_state)])
        = Some ([ENCODER_OUT], MissingKey)
   \<and> Encoder_forward (Inr NoSpec) (\<lambda>inputs. Inr (Dict [(STATE_OUT, inputs)]))
        (Inr (SpecDict [(ENCODER_OUT, NoSpec)])) demo_state
        = Inl (OutputSpecViolation [ENCODER_OUT] MissingKey)
   \<and> input_dims demo_cnn_config = [4, 4, 3] \<and> output_dims demo_cnn_config = [8]
   \<and> shape (Tensor [2, 4, 4, 3] (replicate 96 (1::int))) = [2, 4, 4, 3]
   \<and> (\<exists>y. TfCNNEncoder_forward demo_cnn_encoder demo_cnn_inputs
             = Inr (Dict [(ENCODER_OUT, Leaf y), (STATE_OUT, demo_state)])
         \<and> shape y = [2, 8])
   \<and> shape (Tensor [2, 5, 4, 3] (replicate 120 (1::int))) = [2, 5, 4, 3]
   \<and> TfCNNEncoder_forward demo_cnn_encoder demo_cnn_inputs_wide
        = Inl (InputSpecViolation [OBS] (DimMismatch ''w'' 4 5))"
proof -
  note ok = demo_layers_ok
  have c0: "0 \<le> output_dims demo_cnn_config ! 0" "0 \<le> output_dims demo_mlp_config ! 0"
    "0 \<le> output_dims demo_lstm_config ! 0" "0 < num_lstm_layers demo_lstm_config"
    "input_dims demo_cnn_config = [4, 4, 3]" "output_dims demo_cnn_config = [8]"
    by (simp_all add: demo_cnn_config_def demo_mlp_config_def demo_lstm_config_def)
  have cc: "conforms (TfCNNEncoder_get_input_specs demo_cnn_encoder) demo_cnn_inputs"
    by code_simp
  have cm: "conforms (TfMLPEncoder_get_input_specs demo_mlp_encoder) demo_mlp_inputs"
    by code_simp
  have g: "getitem demo_lstm_inputs OBS = Inr (Leaf demo_lstm_obs)"
    "getitem demo_lstm_inputs STATE_IN
        = Inr (Dict [(Str ''h'', Leaf demo_h_in), (Str ''c'', Leaf demo_c_in)])"
    "shape demo_h_in ! 0 = obs_batch demo_lstm_config demo_lstm_obs"
    "shape demo_c_in ! 0 = obs_batch demo_lstm_config demo_lstm_obs"
    by (simp_all add: demo_lstm_inputs_def demo_state_in_def demo_h_in_def demo_c_in_def
        obs_batch_def demo_lstm_config_def demo_lstm_obs_def)
  let ?mspec = "SpecDict [(OBS, TensorSpec (TfTensorSpec ''b, d'' [(''d'', 2)]))]"
  have v1: "validate ?mspec demo_mlp_inputs_no_obs = Some ([OBS], MissingKey)"
    by (simp add: demo_mlp_inputs_no_obs_def)
  have v2: "validate_items [(OBS, NoSpec)] [(OBS, demo_state), (SEQ_LENS, NoneV)] = None"
    "map_of [(OBS, demo_state), (SEQ_LENS, NoneV)] STATE_IN = None"
    by simp_all
  let ?wide = "Tensor [2, 5, 4, 3] (replicate 120 (1::int))"
  let ?ws = "TfTensorSpec ''b, w, h, c'' [(''w'', 4), (''h'', 4), (''c'', 3)]"
  have v3: "validate_items [] [(OBS, Leaf ?wide)] = None"
    "map_of [(OBS, Leaf ?wide)] OBS = Some (Leaf ?wide)"
    "check_tensor ?ws ?wide = Some (DimMismatch ''w'' 4 5)"
    by simp_all
  have v4: "validate NoSpec demo_state = None"
    "(\<lambda>inputs. Inr (Dict [(STATE_OUT, inputs)])) demo_state = Inr (Dict [(STATE_OUT, demo_state)])"
    "validate (SpecDict [(ENCODER_OUT, NoSpec)]) (Dict [(STATE_OUT, demo_state)])
        = Some ([ENCODER_OUT], MissingKey)"
    by simp_all
  have x: "shape (Tensor [2, 4, 4, 3] (replicate 96 (1::int))) = [2, 4, 4, 3]"
    "shape ?wide = [2, 5, 4, 3]"
    by simp_all
  note t = forward_contract[where tf = demo_tf
      and cnn_cfg = demo_cnn_config and cnn = demo_cnn_encoder and cnn_inputs = demo_cnn_inputs
      and mlp_cfg = demo_mlp_config and mlp = demo_mlp_encoder and mlp_inputs = demo_mlp_inputs
      and lstm_cfg = demo_lstm_config and lstm = demo_lstm_encoder
      and lstm_inputs = demo_lstm_inputs and obs = demo_lstm_obs
      and h_in = demo_h_in and c_in = demo_c_in
      and in_spec = ?mspec and inputs = demo_mlp_inputs_no_obs and path = "[OBS]"
      and v = MissingKey and forward' = "TfMLPEncoder__forward demo_mlp_encoder"
      and out_specs = "TfMLPEncoder_get_output_specs demo_mlp_encoder"
      and pre = "[(OBS, NoSpec)]" and kvs = "[(OBS, demo_state), (SEQ_LENS, NoneV)]"
      and k = STATE_IN and sp = NoSpec and post = "[(SEQ_LENS, NoSpec)]"
      and pre' = "[]" and kvs' = "[(OBS, Leaf ?wide)]" and k' = OBS and t = ?wide
      and ts = ?ws and v' = "DimMismatch ''w'' 4 5" and post' = "[]"
      and in_spec' = NoSpec and inputs' = demo_state
      and forward'' = "\<lambda>inputs. Inr (Dict [(STATE_OUT, inputs)])"
      and result' = "Dict [(STATE_OUT, demo_state)]"
      and out_spec = "SpecDict [(ENCODER_OUT, NoSpec)]" and path' = "[ENCODER_OUT]"
      and v'' = MissingKey
      and ?cfg48.0 = demo_cnn_config and ?cnn48.0 = demo_cnn_encoder
      and x = "Tensor [2, 4, 4, 3] (replicate 96 (1::int))" and s = demo_state and q = NoneV
      and cfg48' = demo_cnn_config and cnn48' = demo_cnn_encoder
      and x' = ?wide and s' = demo_state and q' = NoneV]
  have r1: "\<exists>result. TfCNNEncoder_forward demo_cnn_encoder demo_cnn_inputs = Inr result
         \<and> conforms (TfCNNEncoder_get_output_specs demo_cnn_encoder) result"
    using t ok demo_cnn_init c0 cc by blast
  have r2: "\<exists>result. TfMLPEncoder_forward demo_mlp_encoder demo_mlp_inputs = Inr result
         \<and> conforms (TfMLPEncoder_get_output_specs demo_mlp_encoder) result"
    using t ok demo_mlp_init c0 cm by blast
  have r3: "\<exists>result. TfLSTMEncoder_forward demo_tf demo_lstm_encoder demo_lstm_inputs = Inr result
         \<and> conforms (TfLSTMEncoder_get_output_specs demo_lstm_encoder) result"
    using t ok demo_lstm_init c0 demo_lstm_conforms g by blast
  have r4: "Encoder_forward (Inr ?mspec)
        (TfMLPEncoder__forward demo_mlp_encoder) (TfMLPEncoder_get_output_specs demo_mlp_encoder)
        demo_mlp_inputs_no_obs = Inl (InputSpecViolation [OBS] MissingKey)"
    using t v1 by blast
  have r5: "validate (SpecDict ([(OBS, NoSpec)] @ (STATE_IN, NoSpec) # [(SEQ_LENS, NoSpec)]))
        (Dict [(OBS, demo_state), (SEQ_LENS, NoneV)]) = Some ([STATE_IN], MissingKey)"
    using t v2 by blast
  have r6: "validate (SpecDict ([] @ (OBS, TensorSpec ?ws) # []))
        (Dict [(OBS, Leaf ?wide)]) = Some ([OBS], DimMismatch ''w'' 4 5)"
    using t v3 by blast
  have r7: "Encoder_forward (Inr NoSpec) (\<lambda>inputs. Inr (Dict [(STATE_OUT, inputs)]))
        (Inr (SpecDict [(ENCODER_OUT, NoSpec)])) demo_state
        = Inl (OutputSpecViolation [ENCODER_OUT] MissingKey)"
    using t v4 by blast
  have r8: "\<exists>y. TfCNNEncoder_forward demo_cnn_encoder
               (Dict [(OBS, Leaf (Tensor [2, 4, 4, 3] (replicate 96 (1::int)))),
                      (STATE_IN, demo_state), (SEQ_LENS, NoneV)])
             = Inr (Dict [(ENCODER_OUT, Leaf y), (STATE_OUT, demo_state)])
         \<and> shape y = [2, 8]"
    using t ok demo_cnn_init c0 x by blast
  have r9: "TfCNNEncoder_forward demo_cnn_encoder
               (Dict [(OBS, Leaf ?wide), (STATE_IN, demo_state), (SEQ_LENS, NoneV)])
        = Inl (InputSpecViolation [OBS] (DimMismatch ''w'' 4 5))"
    using t demo_cnn_init c0 x by blast
  show ?thesis
    using ok demo_cnn_init demo_mlp_init demo_lstm_init c0 cc cm demo_lstm_conforms g
      v1 v2 v3 v4(1,3) x r1 r2 r3 r4 r5 r6 r7
      r8[folded demo_cnn_inputs_def] r9[folded demo_cnn_inputs_wide_def]
    by (intro conjI)
qed

text \<open>
  C2 as stated fails for the recurrent encoder: each of these inputs conforms to
  \<open>get_input_specs()\<close>, and \<open>forward\<close> raises. The first has a further entry in its
  state-in, which validation ignores and \<open>_forward\<close> transposes with the rest; the second
  has a state of batch size 3 with an observation of batch size 2, which no spec relates
  and the stand-in layer rejects as the library rejects incompatible shapes; the third
  is given to an encoder of no layers, whose \<open>_forward\<close> stacks an empty list.
\<close>

theorem conforming_input_rejected:
  "conforms (TfLSTMEncoder_get_input_specs demo_lstm_encoder) demo_lstm_inputs_extra
   \<and> TfLSTMEncoder_forward demo_tf demo_lstm_encoder demo_lstm_inputs_extra = Inl TfError
   \<and> conforms (TfLSTMEncoder_get_input_specs demo_lstm_encoder) demo_lstm_inputs_batch3
   \<and> TfLSTMEncoder_forward demo_tf demo_lstm_encoder demo_lstm_inputs_batch3 = Inl TfError
   \<and> conforms (TfLSTMEncoder_get_input_specs demo_lstm_encoder0) demo_lstm_inputs0
   \<and> TfLSTMEncoder_forward demo_tf demo_lstm_encoder0 demo_lstm_inputs0 = Inl TfError"
  by code_simp

section \<open>The actor-critic composite\<close>

text \<open>
  C9 (the composite's \<open>forward\<close> is modelled from the spec). Whenever \<open>forward\<close> of the
  composite returns, both sub-encoders' \<open>forward\<close> returned on the same inputs and the
  result is the dictionary of exactly the two top-level keys holding the sub-encoders'
  full outputs, state-out included; the output of a sub-encoder under the contract
  conforms to that sub-encoder's own \<open>get_output_specs()\<close>. Conversely it returns whenever
  both sub-encoders do, and a sub-encoder's failure surfaces unchanged.
\<close>

theorem actor_critic_forward:
  "(ActorCriticEncoder_forward self inputs = Inr result \<longrightarrow>
      (\<exists>actor_out critic_out.
          forward (actor_encoder self) inputs = Inr actor_out
        \<and> forward (critic_encoder self) inputs = Inr critic_out
        \<and> result = Dict [(ACTOR, actor_out), (CRITIC, critic_out)]
        \<and> (contract_encoder (actor_encoder self)
              \<longrightarrow> conforms (get_output_specs (actor_encoder self)) actor_out)
        \<and> (contract_encoder (critic_encoder self)
              \<longrightarrow> conforms (get_output_specs (critic_encoder self)) critic_out)))
   \<and> (forward (actor_encoder composite) x = Inr a
        \<and> forward (critic_encoder composite) x = Inr c
      \<longrightarrow> ActorCriticEncoder_forward composite x = Inr (Dict [(ACTOR, a), (CRITIC, c)]))
   \<and> (forward (actor_encoder failing) y = Inl e
      \<longrightarrow> ActorCriticEncoder_forward failing y = Inl e)
   \<and> (forward (actor_encoder mixed) z = Inr b
        \<and> forward (critic_encoder mixed) z = Inl f
      \<longrightarrow> ActorCriticEncoder_forward mixed z = Inl f)"
proof (intro conjI impI)
  assume f: "ActorCriticEncoder_forward self inputs = Inr result"
  then obtain actor_out critic_out where
    a: "forward (actor_encoder self) inputs = Inr actor_out"
    and c: "forward (critic_encoder self) inputs = Inr critic_out"
    and r: "result = Dict [(ACTOR, actor_out), (CRITIC, critic_out)]"
    by (auto simp: ActorCriticEncoder_forward_def ebind_eq_Inr)
  have "contract_encoder (actor_encoder self)
          \<longrightarrow> conforms (get_output_specs (actor_encoder self)) actor_out"
    using a by (auto intro: contract_encoder_conforms)
  moreover have "contract_encoder (critic_encoder self)
          \<longrightarrow> conforms (get_output_specs (critic_encoder self)) critic_out"
    using c by (auto intro: contract_encoder_conforms)
  ultimately show "\<exists>actor_out critic_out.
          forward (actor_encoder self) inputs = Inr actor_out
        \<and> forward (critic_encoder self) inputs = Inr critic_out
        \<and> result = Dict [(ACTOR, actor_out), (CRITIC, critic_out)]
        \<and> (contract_encoder (actor_encoder self)
              \<longrightarrow> conforms (get_output_specs (actor_encoder self)) actor_out)
        \<and> (contract_encoder (critic_encoder self)
              \<longrightarrow> conforms (get_output_specs (critic_encoder self)) critic_out)"
    using a c r by blast
qed (simp_all add: ActorCriticEncoder_forward_def)

theorem actor_critic_forward_witness:
  "ActorCriticEncoder_forward demo_ac_encoder demo_cnn_inputs
     = Inr (Dict [(ACTOR, demo_cnn_result),
                  (CRITIC, Dict [(ENCODER_OUT, Leaf (Tensor [2, 5] (replicate 10 0))),
                                 (STATE_OUT, demo_state)])])
   \<and> forward (actor_encoder demo_ac_encoder) demo_cnn_inputs = Inr demo_cnn_result
   \<and> forward (critic_encoder demo_ac_encoder) demo_cnn_inputs
       = Inr (Dict [(ENCODER_OUT, Leaf (Tensor [2, 5] (replicate 10 0))),
                    (STATE_OUT, demo_state)])
   \<and> contract_encoder (actor_encoder demo_ac_encoder)
   \<and> contract_encoder (critic_encoder demo_ac_encoder)
   \<and> conforms (get_output_specs (actor_encoder demo_ac_encoder)) demo_cnn_result
   \<and> conforms (get_output_specs (critic_encoder demo_ac_encoder))
        (Dict [(ENCODER_OUT, Leaf (Tensor [2, 5] (replicate 10 0))), (STATE_OUT, demo_state)])
   \<and> forward (actor_encoder demo_ac_encoder) demo_cnn_inputs_wide
       = Inl (InputSpecViolation [OBS] (DimMismatch ''w'' 4 5))
   \<and> ActorCriticEncoder_forward demo_ac_encoder demo_cnn_inputs_wide
       = Inl (InputSpecViolation [OBS] (DimMismatch ''w'' 4 5))
   \<and> forward (actor_encoder demo_ac_mixed) demo_cnn_inputs = Inr demo_cnn_result
   \<and> forward (critic_encoder demo_ac_mixed) demo_cnn_inputs
       = Inl (InputSpecViolation [OBS] (RankMismatch 2 4))
   \<and> ActorCriticEncoder_forward demo_ac_mixed demo_cnn_inputs
       = Inl (InputSpecViolation [OBS] (RankMismatch 2 4))"
proof -
  let ?critic_out = "Dict [(ENCODER_OUT, Leaf (Tensor [2, 5] (replicate 10 (0::int)))),
                           (STATE_OUT, demo_state)]"
  have a: "forward (actor_encoder demo_ac_encoder) demo_cnn_inputs = Inr demo_cnn_result"
    by code_simp
  have c: "forward (critic_encoder demo_ac_encoder) demo_cnn_inputs = Inr ?critic_out"
    by code_simp
  have ca: "contract_encoder (actor_encoder demo_ac_encoder)"
    and cc: "contract_encoder (critic_encoder demo_ac_encoder)"
    by (simp_all add: demo_ac_encoder_def TfActorCriticEncoder_init_def demo_build_def
        contract_encoder_cnn)
  have w: "forward (actor_encoder demo_ac_encoder) demo_cnn_inputs_wide
             = Inl (InputSpecViolation [OBS] (DimMismatch ''w'' 4 5))"
    by code_simp
  have m: "forward (actor_encoder demo_ac_mixed) demo_cnn_inputs = Inr demo_cnn_result"
    "forward (critic_encoder demo_ac_mixed) demo_cnn_inputs
       = Inl (InputSpecViolation [OBS] (RankMismatch 2 4))"
    by code_simp+
  note t = actor_critic_forward[where self = demo_ac_encoder and inputs = demo_cnn_inputs
      and result = "Dict [(ACTOR, demo_cnn_result), (CRITIC, ?critic_out)]"
      and composite = demo_ac_encoder and x = demo_cnn_inputs
      and a = demo_cnn_result and c = ?critic_out
      and failing = demo_ac_encoder and y = demo_cnn_inputs_wide
      and e = "InputSpecViolation [OBS] (DimMismatch ''w'' 4 5)"
      and mixed = demo_ac_mixed and z = demo_cnn_inputs and b = demo_cnn_result
      and f = "InputSpecViolation [OBS] (RankMismatch 2 4)"]
  have r1: "ActorCriticEncoder_forward demo_ac_encoder demo_cnn_inputs
              = Inr (Dict [(ACTOR, demo_cnn_result), (CRITIC, ?critic_out)])"
    using t a c by blast
  have r2: "conforms (get_output_specs (actor_encoder demo_ac_encoder)) demo_cnn_result"
    "conforms (get_output_specs (critic_encoder demo_ac_encoder)) ?critic_out"
    using t r1 a c ca cc by auto
  have r3: "ActorCriticEncoder_forward demo_ac_encoder demo_cnn_inputs_wide
              = Inl (InputSpecViolation [OBS] (DimMismatch ''w'' 4 5))"
    using t w by blast
  have r4: "ActorCriticEncoder_forward demo_ac_mixed demo_cnn_inputs
              = Inl (InputSpecViolation [OBS] (RankMismatch 2 4))"
    using t m by blast
  show ?thesis using r1 a c ca cc r2 w r3 m r4 by (intro conjI)
qed


end
